theory Spec2Isabelle
  imports Main "HOL-Library.Sublist"
begin

section \<open>Strings and numbers\<close>

text \<open>
  JavaScript strings are modelled as \<^typ>\<open>string\<close>. The two emoji of the source
  (U+2714 and U+26A0) are written as their UTF-8 bytes. Element tag names are kept the way
  \<open>tagName\<close> reports them for an HTML element of an HTML document (ASCII upper case), and
  attribute names the way such an element stores them (ASCII lower case); \<open>createElement\<close>
  and \<open>setAttribute\<close> normalise their argument accordingly. An element of another
  namespace (an \<open>svg\<close> element, say) reports its tag name and keeps its attribute names
  in the case of the page source.
\<close>

definition toUpperChar :: "char \<Rightarrow> char" where
  "toUpperChar c =
     (case map_of (zip ''abcdefghijklmnopqrstuvwxyz'' ''ABCDEFGHIJKLMNOPQRSTUVWXYZ'') c of
        Some u \<Rightarrow> u
      | None \<Rightarrow> c)"

definition toLowerChar :: "char \<Rightarrow> char" where
  "toLowerChar c =
     (case map_of (zip ''ABCDEFGHIJKLMNOPQRSTUVWXYZ'' ''abcdefghijklmnopqrstuvwxyz'') c of
        Some l \<Rightarrow> l
      | None \<Rightarrow> c)"

definition endsWith :: "string \<Rightarrow> string \<Rightarrow> bool" where
  "endsWith s searchString =
     (length searchString \<le> length s \<and> drop (length s - length searchString) s = searchString)"

text \<open>
  Number-to-string conversion for the integers the program prints: an array length and the
  results of \<open>Math.floor\<close>. JavaScript prints an integral number below \<open>10^21\<close> in plain
  decimal notation, with a leading minus sign when negative.
\<close>

fun string_of_nat :: "nat \<Rightarrow> string" where
  "string_of_nat n =
     (if n < 10 then [''0123456789'' ! n]
      else string_of_nat (n div 10) @ [''0123456789'' ! (n mod 10)])"

declare string_of_nat.simps [simp del]

definition string_of_int :: "int \<Rightarrow> string" where
  "string_of_int i = (if i < 0 then ''-'' @ string_of_nat (nat (- i)) else string_of_nat (nat i))"

text \<open>
  The operator \<open>%\<close> on integral numbers: the result takes the sign of the dividend.
\<close>

definition js_rem :: "int \<Rightarrow> int \<Rightarrow> int" where
  "js_rem a b = (if a < 0 then - ((- a) mod \<bar>b\<bar>) else a mod \<bar>b\<bar>)"

text \<open>Reading a decimal numeral back, to state that \<open>string_of_nat\<close> prints the number.\<close>

definition digit_value :: "char \<Rightarrow> nat" where
  "digit_value c = (case map_of (zip ''0123456789'' [0, 1, 2, 3, 4, 5, 6, 7, 8, 9]) c of
      Some d \<Rightarrow> d
    | None \<Rightarrow> 0)"

definition decimal_value :: "string \<Rightarrow> nat" where
  "decimal_value s = foldl (\<lambda>acc c. 10 * acc + digit_value c) 0 s"


section \<open>XML names\<close>

text \<open>
  \<open>createElement\<close> and \<open>setAttribute\<close> throw \<open>InvalidCharacterError\<close> unless the name
  matches the production \<open>Name\<close> of XML. The code points of a string are read from its
  bytes; a string that is not UTF-8 is no name. Later editions of the DOM standard accept
  more names than this production; they accept every XML name too, and they still refuse an
  attribute name with the character \<open>=\<close> in it. The facts below that assume XML names, and the
  examples of a refused name, which all use the attribute name \<open>=x\<close>, hold under either
  rule.
\<close>

definition continuation_byte :: "int \<Rightarrow> bool" where
  "continuation_byte b = (128 \<le> b \<and> b < 192)"

fun utf8_code_points :: "int list \<Rightarrow> int list option" where
  "utf8_code_points [] = Some []"
| "utf8_code_points (b # bs) =
     (if b < 128 then map_option ((#) b) (utf8_code_points bs)
      else if 194 \<le> b \<and> b < 224 then
        (case bs of
           c1 # rest \<Rightarrow>
             if continuation_byte c1
             then map_option ((#) ((b - 192) * 64 + (c1 - 128))) (utf8_code_points rest)
             else None
         | _ \<Rightarrow> None)
      else if 224 \<le> b \<and> b < 240 then
        (case bs of
           c1 # c2 # rest \<Rightarrow>
             if continuation_byte c1 \<and> continuation_byte c2
                \<and> 2048 \<le> (b - 224) * 4096 + (c1 - 128) * 64 + (c2 - 128)
             then map_option ((#) ((b - 224) * 4096 + (c1 - 128) * 64 + (c2 - 128)))
                    (utf8_code_points rest)
             else None
         | _ \<Rightarrow> None)
      else if 240 \<le> b \<and> b < 245 then
        (case bs of
           c1 # c2 # c3 # rest \<Rightarrow>
             if continuation_byte c1 \<and> continuation_byte c2 \<and> continuation_byte c3
                \<and> 65536 \<le> (b - 240) * 262144 + (c1 - 128) * 4096 + (c2 - 128) * 64
                              + (c3 - 128)
             then map_option
                    ((#) ((b - 240) * 262144 + (c1 - 128) * 4096 + (c2 - 128) * 64 + (c3 - 128)))
                    (utf8_code_points rest)
             else None
         | _ \<Rightarrow> None)
      else None)"

definition in_ranges :: "int \<Rightarrow> (int \<times> int) list \<Rightarrow> bool" where
  "in_ranges c ranges = list_ex (\<lambda>(lo, hi). lo \<le> c \<and> c \<le> hi) ranges"

definition name_start_char :: "int \<Rightarrow> bool" where
  "name_start_char c =
     in_ranges c
       [(0x3A, 0x3A), (0x41, 0x5A), (0x5F, 0x5F), (0x61, 0x7A), (0xC0, 0xD6), (0xD8, 0xF6),
        (0xF8, 0x2FF), (0x370, 0x37D), (0x37F, 0x1FFF), (0x200C, 0x200D), (0x2070, 0x218F),
        (0x2C00, 0x2FEF), (0x3001, 0xD7FF), (0xF900, 0xFDCF), (0xFDF0, 0xFFFD),
        (0x10000, 0xEFFFF)]"

definition name_char :: "int \<Rightarrow> bool" where
  "name_char c =
     (name_start_char c \<or>
      in_ranges c [(0x2D, 0x2E), (0x30, 0x39), (0xB7, 0xB7), (0x300, 0x36F), (0x203F, 0x2040)])"

definition xml_name :: "string \<Rightarrow> bool" where
  "xml_name s =
     (case utf8_code_points (map of_char s) of
        None \<Rightarrow> False
      | Some [] \<Rightarrow> False
      | Some (c # cs) \<Rightarrow> name_start_char c \<and> list_all name_char cs)"


section \<open>Exceptions\<close>

datatype error = HierarchyRequestError | InvalidCharacterError

text \<open>
  A call that may throw returns a sum: \<open>Inl\<close> the exception, \<open>Inr\<close> the value. Where the call
  works on a node that lives on after the exception, the exception comes with the node as
  the call left it.
\<close>

definition and_then :: "'e + 'a \<Rightarrow> ('a \<Rightarrow> 'e + 'b) \<Rightarrow> 'e + 'b" where
  "and_then r f = (case r of Inl e \<Rightarrow> Inl e | Inr x \<Rightarrow> f x)"

text \<open>A loop whose body may throw: the exception ends the loop.\<close>

fun for_each :: "('s \<Rightarrow> 'a \<Rightarrow> error + 's) \<Rightarrow> 'a list \<Rightarrow> 's \<Rightarrow> error + 's" where
  "for_each body [] s = Inr s"
| "for_each body (x # xs) s = and_then (body s x) (for_each body xs)"


section \<open>DOM trees\<close>

type_synonym attrs = "(string \<times> string) list"

datatype node = Text string | Element string attrs "node list"

text \<open>A node of a tree is addressed by the child indices leading to it from the root.\<close>

type_synonym path = "nat list"

fun tagName :: "node \<Rightarrow> string" where
  "tagName (Element t a cs) = t"
| "tagName (Text s) = []"

fun attributes :: "node \<Rightarrow> attrs" where
  "attributes (Element t a cs) = a"
| "attributes (Text s) = []"

fun childNodes :: "node \<Rightarrow> node list" where
  "childNodes (Element t a cs) = cs"
| "childNodes (Text s) = []"

text \<open>\<open>document.createElement\<close> of an HTML document: an HTML element, or the exception.\<close>

definition createElement :: "string \<Rightarrow> error + node" where
  "createElement localName =
     (if xml_name localName then Inr (Element (map toUpperChar localName) [] [])
      else Inl InvalidCharacterError)"

definition createTextNode :: "string \<Rightarrow> node" where
  "createTextNode s = Text s"

text \<open>\<open>setAttribute\<close> on an HTML element checks the name, puts it in lower case, overwrites
  the value of an attribute that exists and appends a new attribute otherwise.\<close>

fun setAttr :: "string \<Rightarrow> string \<Rightarrow> attrs \<Rightarrow> attrs" where
  "setAttr name v [] = [(name, v)]"
| "setAttr name v ((n, w) # rest) =
     (if n = name then (n, v) # rest else (n, w) # setAttr name v rest)"

fun setAttribute :: "string \<Rightarrow> string \<Rightarrow> node \<Rightarrow> error + node" where
  "setAttribute name v (Element t a cs) =
     (if xml_name name then Inr (Element t (setAttr (map toLowerChar name) v a) cs)
      else Inl InvalidCharacterError)"
| "setAttribute name v (Text s) = Inr (Text s)"

text \<open>
  \<open>append\<close> and \<open>prepend\<close> of a parent node. A string argument of the source is written
  here as the text node the DOM converts it to.
\<close>

fun append_nodes :: "node list \<Rightarrow> node \<Rightarrow> node" where
  "append_nodes ns (Element t a cs) = Element t a (cs @ ns)"
| "append_nodes ns (Text s) = Text s"

fun prepend :: "node list \<Rightarrow> node \<Rightarrow> node" where
  "prepend ns (Element t a cs) = Element t a (ns @ cs)"
| "prepend ns (Text s) = Text s"


section \<open>The fragments of the plain script (part 000)\<close>

definition createHeader :: "string \<Rightarrow> string \<Rightarrow> error + node" where
  "createHeader name ident =
     and_then (createElement ''h1'') (\<lambda>header.
     and_then (setAttribute ''id'' ident header) (\<lambda>header.
     and_then (setAttribute ''class'' ''section-header'' header) (\<lambda>header.
     and_then (createElement ''a'') (\<lambda>a.
     and_then (setAttribute ''href'' (''#'' @ ident) a) (\<lambda>a.
       (let a = append_nodes [createTextNode name] a;
            header = append_nodes [a] header
        in Inr header))))))"

definition createMark :: "string \<Rightarrow> string \<Rightarrow> error + node" where
  "createMark src char =
     and_then (createElement ''img'') (\<lambda>mark.
     and_then (setAttribute ''src'' src mark) (\<lambda>mark.
     and_then (setAttribute ''alt'' char mark) (\<lambda>mark.
     and_then (setAttribute ''title'' char mark) (\<lambda>mark.
     and_then (setAttribute ''width'' ''20'' mark) (\<lambda>mark.
     and_then (setAttribute ''height'' ''20'' mark) (\<lambda>mark.
       Inr mark))))))"

definition heavy_check_mark_char :: string where
  "heavy_check_mark_char = [CHR 0xE2, CHR 0x9C, CHR 0x94]"

definition warning_char :: string where
  "warning_char = [CHR 0xE2, CHR 0x9A, CHR 0xA0]"

definition createHeavyCheckMark :: "error + node" where
  "createHeavyCheckMark =
     createMark ''https://github.githubassets.com/images/icons/emoji/unicode/2714.png''
       heavy_check_mark_char"

definition createWarningMark :: "error + node" where
  "createWarningMark =
     createMark ''https://github.githubassets.com/images/icons/emoji/unicode/26a0.png''
       warning_char"

text \<open>The body of the \<open>for\<close> loop of \<open>createVerifiedWithSection\<close>, for one pair.\<close>

definition verifiedWith_item :: "node \<Rightarrow> string \<times> string \<Rightarrow> error + node" where
  "verifiedWith_item ul pair =
     (case pair of (problemURL, blobURL) \<Rightarrow>
        and_then (createElement ''li'') (\<lambda>li.
        and_then (createElement ''a'') (\<lambda>a1.
        and_then (setAttribute ''href'' problemURL a1) (\<lambda>a1.
          (let a1 = append_nodes [Text problemURL] a1
           in and_then (createElement ''a'') (\<lambda>a2.
              and_then (setAttribute ''href'' blobURL a2) (\<lambda>a2.
                (let a2 = append_nodes [Text ''code''] a2;
                     li = append_nodes [a1, Text '' ('', a2, Text '')''] li
                 in Inr (append_nodes [li] ul)))))))))"

definition createVerifiedWithSection :: "(string \<times> string) list \<Rightarrow> error + node" where
  "createVerifiedWithSection verifiedWith =
     and_then (createElement ''div'') (\<lambda>divE.
     and_then
       (if length verifiedWith = 0 then
          and_then (createElement ''strong'') (\<lambda>strong.
          and_then createWarningMark (\<lambda>mark.
            (let strong = append_nodes [mark, Text '' This library is not verified.''] strong
             in Inr (append_nodes [strong] divE))))
        else if length verifiedWith = 1 then
          and_then createHeavyCheckMark (\<lambda>mark.
            Inr (append_nodes [mark, Text '' This library verified with 1 solution.''] divE))
        else
          and_then createHeavyCheckMark (\<lambda>mark.
            Inr (append_nodes
                   [mark,
                    Text ('' This library verified with '' @ string_of_nat (length verifiedWith)
                          @ '' solutions.'')] divE)))
       (\<lambda>divE.
     and_then (createElement ''ul'') (\<lambda>ul.
     and_then (for_each verifiedWith_item verifiedWith ul) (\<lambda>ul.
       Inr (append_nodes [ul] divE)))))"

text \<open>
  The size argument of the plain script is a number of bytes or a preformatted string; the
  numbers considered are integral.
\<close>

datatype codeSize = SizeNumber int | SizeString string

definition createCodeSizeSection :: "codeSize \<Rightarrow> error + node" where
  "createCodeSizeSection codeSizeUnmodified =
     and_then (createElement ''ul'') (\<lambda>ul.
     and_then (createElement ''li'') (\<lambda>li1.
       (let li1 = append_nodes [Text ''unmodified: ''] li1
        in and_then
             (case codeSizeUnmodified of
                SizeNumber n \<Rightarrow>
                  (let d = n div 1024;
                       r = js_rem n 1024
                   in Inr (append_nodes
                        [Text (string_of_int d @ ''.'' @ string_of_int ((10 * r) div 1024)
                               @ '' KiB'')] li1))
              | SizeString s \<Rightarrow>
                  and_then (createElement ''code'') (\<lambda>code.
                    (let code = append_nodes [Text s] code
                     in Inr (append_nodes [code] li1))))
             (\<lambda>li1.
               (let li1 = append_nodes [Text '' + (not yet implemented) KiB''] li1
                in and_then (createElement ''li'') (\<lambda>li2.
                   and_then (createElement ''li'') (\<lambda>li3.
                   and_then (createElement ''code'') (\<lambda>code1.
                   and_then (createElement ''code'') (\<lambda>code2.
                     (let code1 = append_nodes [Text ''#[cfg]''] code1;
                          code2 = append_nodes [Text ''#[cfg]''] code2;
                          li2 = append_nodes
                            [code1,
                             Text '' resolved + (doc-)comment removed + Rustfmt: (not yet implemented)'']
                            li2;
                          li3 = append_nodes
                            [code2,
                             Text '' resolved + doc-comment removed + minified: (not yet implemented)'']
                            li3
                      in Inr (append_nodes [li1, li2, li3] ul)))))))))))"

text \<open>The body of the \<open>for\<close> loop of \<open>createDependenciesSection\<close>, for one pair.\<close>

definition dependencies_item :: "node \<Rightarrow> string \<times> string \<Rightarrow> error + node" where
  "dependencies_item ul pair =
     (case pair of (text, href) \<Rightarrow>
        and_then (createElement ''li'') (\<lambda>li.
        and_then (createElement ''a'') (\<lambda>a.
        and_then (setAttribute ''href'' href a) (\<lambda>a.
          (let a = append_nodes [Text text] a;
               li = append_nodes [a] li
           in Inr (append_nodes [li] ul))))))"

text \<open>\<open>createDependenciesSection\<close> returns a string (\<open>Inl\<close>) or an element (\<open>Inr\<close>).\<close>

definition createDependenciesSection ::
  "(string \<times> string) list \<Rightarrow> error + (string + node)" where
  "createDependenciesSection items =
     (if length items = 0 then Inr (Inl ''No dependencies.'')
      else
        and_then (createElement ''ul'') (\<lambda>ul.
        and_then (for_each dependencies_item items ul) (\<lambda>ul.
          Inr (Inr ul))))"

text \<open>What \<open>prepend\<close> makes of an argument that is a string or a node.\<close>

fun node_of_arg :: "string + node \<Rightarrow> node" where
  "node_of_arg (Inl s) = Text s"
| "node_of_arg (Inr n) = n"

definition createCargoAddCommandSection :: "string \<Rightarrow> error + node" where
  "createCargoAddCommandSection cargoAddCommand =
     and_then (createElement ''pre'') (\<lambda>pre.
     and_then (createElement ''code'') (\<lambda>code.
     and_then (setAttribute ''class'' ''language-console'' code) (\<lambda>code.
       (let code = append_nodes [Text (''$ '' @ cargoAddCommand @ [CHR 0x0A])] code;
            pre = append_nodes [code] pre
        in Inr pre))))"

definition createFirstSection :: "string \<Rightarrow> string \<Rightarrow> error + node" where
  "createFirstSection manifestDirBlobURL license =
     and_then (createElement ''ul'') (\<lambda>ul.
     and_then (createElement ''li'') (\<lambda>li1.
     and_then (createElement ''a'') (\<lambda>a.
     and_then (createElement ''li'') (\<lambda>li2.
     and_then (createElement ''code'') (\<lambda>code.
     and_then (setAttribute ''href'' manifestDirBlobURL a) (\<lambda>a.
       (let a = append_nodes [Text ''View on GitHub''] a;
            li1 = append_nodes [a] li1;
            code = append_nodes [Text license] code;
            li2 = append_nodes [Text ''License: '', code] li2;
            ul = append_nodes [li1, li2] ul
        in Inr ul)))))))"


section \<open>The fragments of the TypeScript variants (injection/index.ts)\<close>

text \<open>
  \<open>createHeader\<close>, \<open>createMark\<close> and, in the variant with \<open>registerModification\<close>,
  \<open>createVerifiedWithSection\<close> are the same functions as above. The variant with
  \<open>modifyDocblock\<close> has a \<open>createVerifiedWithSection\<close> of its own, which builds the list
  only.
\<close>

definition createVerifiedWithSection_md :: "(string \<times> string) list \<Rightarrow> error + node" where
  "createVerifiedWithSection_md verifiedWith =
     and_then (createElement ''ul'') (\<lambda>ul.
     and_then (for_each verifiedWith_item verifiedWith ul) (\<lambda>ul.
       Inr ul))"

definition createCodeSizeSection_ts :: "string \<Rightarrow> error + node" where
  "createCodeSizeSection_ts codeSizeUnmodified =
     and_then (createElement ''ul'') (\<lambda>ul.
     and_then (createElement ''li'') (\<lambda>li1.
       (let li1 = append_nodes
              [Text (''unmodified: '' @ codeSizeUnmodified
                     @ '' KiB + (not yet implemented) KiB'')]
              li1
        in and_then (createElement ''li'') (\<lambda>li2.
             (let li2 = append_nodes [Text []] li2;
                  ul = append_nodes [li1] ul
              in Inr ul)))))"

definition createDependencySection :: "string \<Rightarrow> error + node" where
  "createDependencySection cargoAddCommand =
     and_then (createElement ''pre'') (\<lambda>pre.
     and_then (createElement ''code'') (\<lambda>code.
     and_then (setAttribute ''class'' ''language-console'' code) (\<lambda>code.
       (let code = append_nodes [Text (''$ '' @ cargoAddCommand @ [CHR 0x0A])] code;
            pre = append_nodes [code] pre
        in Inr pre))))"

definition createFirstSection_ts :: "string \<Rightarrow> string \<Rightarrow> string \<Rightarrow> error + node" where
  "createFirstSection_ts manifestRelPath manifestHref license =
     and_then (createElement ''ul'') (\<lambda>ul.
     and_then (createElement ''li'') (\<lambda>li1.
     and_then (createElement ''a'') (\<lambda>a.
     and_then (setAttribute ''href'' manifestHref a) (\<lambda>a.
     and_then (createElement ''code'') (\<lambda>code1.
       (let code1 = append_nodes [Text manifestRelPath] code1;
            a = append_nodes [code1] a;
            li1 = append_nodes [Text ''Manifest: '', a] li1
        in and_then (createElement ''li'') (\<lambda>li2.
           and_then (createElement ''code'') (\<lambda>code2.
             (let code2 = append_nodes [Text license] code2;
                  li2 = append_nodes [Text ''License: '', code2] li2;
                  ul = append_nodes [li1, li2] ul
              in Inr ul)))))))))"

section \<open>Positions and selectors\<close>

fun node_at :: "node \<Rightarrow> path \<Rightarrow> node option" where
  "node_at n [] = Some n"
| "node_at (Text s) (i # p) = None"
| "node_at (Element t a cs) (i # p) = (if i < length cs then node_at (cs ! i) p else None)"

fun update_at :: "path \<Rightarrow> (node \<Rightarrow> node) \<Rightarrow> node \<Rightarrow> node" where
  "update_at [] f n = f n"
| "update_at (i # p) f (Text s) = Text s"
| "update_at (i # p) f (Element t a cs) =
     (if i < length cs then Element t a (cs[i := update_at p f (cs ! i)]) else Element t a cs)"

text \<open>The class list of an element: its \<open>class\<close> attribute split at ASCII whitespace.\<close>

definition is_ascii_whitespace :: "char \<Rightarrow> bool" where
  "is_ascii_whitespace c = (c \<in> set [CHR 0x09, CHR 0x0A, CHR 0x0C, CHR 0x0D, CHR 0x20])"

fun split_whitespace :: "string \<Rightarrow> string \<Rightarrow> string list" where
  "split_whitespace cur [] = (if cur = [] then [] else [cur])"
| "split_whitespace cur (c # cs) =
     (if is_ascii_whitespace c then (if cur = [] then [] else [cur]) @ split_whitespace [] cs
      else split_whitespace (cur @ [c]) cs)"

definition classList :: "node \<Rightarrow> string list" where
  "classList n = (case map_of (attributes n) ''class'' of
      None \<Rightarrow> []
    | Some v \<Rightarrow> split_whitespace [] v)"

text \<open>The program only uses class selectors: a dot followed by the class name, which is
  compared with the classes of the element letter by letter (a page with a doctype).\<close>

fun matches :: "string \<Rightarrow> node \<Rightarrow> bool" where
  "matches sel (Text s) = False"
| "matches sel (Element t a cs) =
     (case sel of
        [] \<Rightarrow> False
      | c # cls \<Rightarrow> c = CHR ''.'' \<and> cls \<in> set (classList (Element t a cs)))"

text \<open>
  The positions of the matching elements of a subtree, in document order (an element
  before its descendants, siblings from left to right). \<open>select_list sel i cs\<close> numbers the
  nodes \<open>cs\<close> from \<open>i\<close>.
\<close>

fun select_node :: "string \<Rightarrow> node \<Rightarrow> path list"
  and select_list :: "string \<Rightarrow> nat \<Rightarrow> node list \<Rightarrow> path list" where
  "select_node sel (Text s) = []"
| "select_node sel (Element t a cs) =
     (if matches sel (Element t a cs) then [[]] else []) @ select_list sel 0 cs"
| "select_list sel i [] = []"
| "select_list sel i (c # cs) = map ((#) i) (select_node sel c) @ select_list sel (Suc i) cs"

text \<open>\<open>document.querySelector\<close>: the first match in the document, whose root element is
  given; \<open>None\<close> is \<open>null\<close>.\<close>

definition querySelector :: "string \<Rightarrow> node \<Rightarrow> path option" where
  "querySelector sel root = (case select_node sel root of [] \<Rightarrow> None | p # ps \<Rightarrow> Some p)"

text \<open>\<open>querySelectorAll\<close> of an element: the matching descendants, as positions below it.\<close>

definition querySelectorAll :: "string \<Rightarrow> node \<Rightarrow> path list" where
  "querySelectorAll sel el = select_list sel 0 (childNodes el)"


section \<open>Heading downgrade\<close>

definition downgraded_tagName :: "string \<Rightarrow> string" where
  "downgraded_tagName t =
     (if t = ''H1'' then ''H2''
      else if t = ''H2'' then ''H3''
      else if t = ''H3'' then ''H4''
      else if t = ''H4'' then ''H5''
      else if t = ''H5'' then ''H6''
      else t)"


text \<open>
  The callback of \<open>forEach\<close>. A header is found again by its position: a replacement takes
  the place and the children of the element it replaces, so no step moves another node. The
  callback throws when \<open>createElement\<close> or \<open>setAttribute\<close> refuses a name; that is before the
  children are moved and before \<open>replaceWith\<close>, so the container is then as the callback
  found it.
\<close>

definition replace_sectionHeader :: "node \<Rightarrow> path \<Rightarrow> error + node" where
  "replace_sectionHeader docblock p =
     (case node_at docblock p of
        Some (Element t a cs) \<Rightarrow>
          and_then (createElement (downgraded_tagName t)) (\<lambda>replacement.
          and_then (for_each (\<lambda>replacement (name, v). setAttribute name v replacement)
                      a replacement) (\<lambda>replacement.
            (let replacement = append_nodes cs replacement
             in Inr (update_at p (\<lambda>sectionHeader. replacement) docblock))))
      | _ \<Rightarrow> Inr docblock)"

text \<open>
  \<open>forEach\<close> over the static node list of \<open>querySelectorAll\<close>: an exception of the callback
  ends the loop and leaves the container with the replacements made so far.
\<close>

fun forEach ::
  "(node \<Rightarrow> path \<Rightarrow> error + node) \<Rightarrow> path list \<Rightarrow> node \<Rightarrow> error \<times> node + node" where
  "forEach callback [] docblock = Inr docblock"
| "forEach callback (p # ps) docblock =
     (case callback docblock p of
        Inl e \<Rightarrow> Inl (e, docblock)
      | Inr docblock' \<Rightarrow> forEach callback ps docblock')"

definition downgradeSectionHeaders :: "node \<Rightarrow> error \<times> node + node" where
  "downgradeSectionHeaders docblock =
     forEach replace_sectionHeader (querySelectorAll ''.section-header'' docblock) docblock"


section \<open>Container resolution\<close>

fun insert_child :: "nat \<Rightarrow> node \<Rightarrow> node \<Rightarrow> node" where
  "insert_child i new (Element t a cs) = Element t a (take i cs @ [new] @ drop i cs)"
| "insert_child i new (Text s) = Text s"

text \<open>
  \<open>insertAdjacentElement("afterend", new)\<close> on the element at position \<open>p\<close>. The parent of
  the root element is the document, which takes no second element child: the DOM throws.
\<close>

definition insertAdjacentElement_afterend :: "path \<Rightarrow> node \<Rightarrow> node \<Rightarrow> error + node" where
  "insertAdjacentElement_afterend p new root =
     (if p = [] then Inl HierarchyRequestError
      else Inr (update_at (butlast p) (insert_child (Suc (last p)) new) root))"

definition createToggleWrapper :: "error + node" where
  "createToggleWrapper =
     and_then (createElement ''div'') (\<lambda>toggleWrapper.
     and_then (createElement ''a'') (\<lambda>a.
     and_then (createElement ''span'') (\<lambda>span1.
     and_then (createElement ''span'') (\<lambda>span2.
     and_then (setAttribute ''class'' ''toggle-wrapper'' toggleWrapper) (\<lambda>toggleWrapper.
     and_then (setAttribute ''class'' ''collapse-toggle'' a) (\<lambda>a.
     and_then (setAttribute ''href'' ''javascript:void(0)'' a) (\<lambda>a.
     and_then (setAttribute ''class'' ''inner'' span1) (\<lambda>span1.
     and_then (setAttribute ''class'' ''toggle-label'' span2) (\<lambda>span2.
     and_then (setAttribute ''style'' ''display: none;'' span2) (\<lambda>span2.
       (let span1 = append_nodes [Text ''-''] span1;
            span2 = append_nodes [Text '' Expand description''] span2;
            a = append_nodes [Text ''['', span1, Text ''] '', span2] a;
            toggleWrapper = append_nodes [a] toggleWrapper
        in Inr toggleWrapper)))))))))))"

text \<open>An exception of a call, with the state that the caller had reached.\<close>

definition thrown_at :: "'s \<Rightarrow> error + 'a \<Rightarrow> error \<times> 's + 'a" where
  "thrown_at s r = (case r of Inl e \<Rightarrow> Inl (e, s) | Inr x \<Rightarrow> Inr x)"

text \<open>
  \<open>findOrCreateDocblock\<close> returns the document after the call and the position of the
  container in it (\<open>None\<close> for \<open>null\<close>), or throws and leaves the document as it then is.
  The toggle wrapper is inserted after the anchor once the container is there, so the
  container ends two places after the anchor.
\<close>

definition findOrCreateDocblock :: "node \<Rightarrow> error \<times> node + node \<times> path option" where
  "findOrCreateDocblock root =
     (case querySelector ''.docblock'' root of
        Some p \<Rightarrow> Inr (root, Some p)
      | None \<Rightarrow>
          (case querySelector ''.fqn'' root of
             None \<Rightarrow> Inr (root, None)
           | Some fqn \<Rightarrow>
               and_then (thrown_at root (createElement ''div'')) (\<lambda>docblock.
               and_then (thrown_at root (setAttribute ''class'' ''docblock'' docblock))
                 (\<lambda>docblock.
               and_then (thrown_at root (insertAdjacentElement_afterend fqn docblock root))
                 (\<lambda>root1.
               and_then (thrown_at root1 createToggleWrapper) (\<lambda>toggleWrapper.
               and_then
                 (thrown_at root1 (insertAdjacentElement_afterend fqn toggleWrapper root1))
                 (\<lambda>root2.
                 Inr (root2, Some (butlast fqn @ [last fqn + 2])))))))))"


section \<open>The three entry routines\<close>

text \<open>
  \<open>docblock.prepend(f(...))\<close>: the argument is built first; if that throws, the container
  stays as it is.
\<close>

definition prepend_new :: "error + node \<Rightarrow> node \<Rightarrow> error \<times> node + node" where
  "prepend_new r docblock =
     (case r of Inl e \<Rightarrow> Inl (e, docblock) | Inr n \<Rightarrow> Inr (prepend [n] docblock))"

text \<open>What each routine does to the container, once it has one.\<close>

definition modify_js ::
  "string \<Rightarrow> string \<Rightarrow> string \<Rightarrow> (string \<times> string) list \<Rightarrow> codeSize option \<Rightarrow>
   (string \<times> string) list \<Rightarrow> node \<Rightarrow> error \<times> node + node" where
  "modify_js manifestDirBlobURL license cargoAddCommand dependencyUL codeSizeUnmodified
     verifiedWith docblock =
     and_then (downgradeSectionHeaders docblock) (\<lambda>docblock.
     and_then (prepend_new (createHeader ''Description'' ''description'') docblock) (\<lambda>docblock.
     and_then (prepend_new (createVerifiedWithSection verifiedWith) docblock) (\<lambda>docblock.
     and_then (prepend_new (createHeader ''Verified with'' ''verified-with'') docblock)
       (\<lambda>docblock.
     and_then
       (case codeSizeUnmodified of
          None \<Rightarrow> Inr docblock
        | Some sz \<Rightarrow>
            and_then (prepend_new (createCodeSizeSection sz) docblock) (\<lambda>docblock.
              prepend_new (createHeader ''Code size'' ''code-size'') docblock))
       (\<lambda>docblock.
     and_then
       (prepend_new
          (and_then (createDependenciesSection dependencyUL) (\<lambda>arg. Inr (node_of_arg arg)))
          docblock)
       (\<lambda>docblock.
     and_then (prepend_new (createHeader ''Dependencies'' ''dependencies'') docblock)
       (\<lambda>docblock.
     and_then (prepend_new (createCargoAddCommandSection cargoAddCommand) docblock)
       (\<lambda>docblock.
       prepend_new (createFirstSection manifestDirBlobURL license) docblock))))))))"

definition modify_ts ::
  "string \<Rightarrow> string \<Rightarrow> string \<Rightarrow> string \<Rightarrow> string option \<Rightarrow>
   (string \<times> string) list \<Rightarrow> node \<Rightarrow> error \<times> node + node" where
  "modify_ts manifestRelPath manifestHref license cargoAddCommand codeSizeUnmodified
     verifiedWith docblock =
     and_then (downgradeSectionHeaders docblock) (\<lambda>docblock.
     and_then (prepend_new (createHeader ''Description'' ''description'') docblock) (\<lambda>docblock.
     and_then (prepend_new (createVerifiedWithSection verifiedWith) docblock) (\<lambda>docblock.
     and_then (prepend_new (createHeader ''Verified with'' ''verified-with'') docblock)
       (\<lambda>docblock.
     and_then
       (case codeSizeUnmodified of
          None \<Rightarrow> Inr docblock
        | Some sz \<Rightarrow>
            and_then (prepend_new (createCodeSizeSection_ts sz) docblock) (\<lambda>docblock.
              prepend_new (createHeader ''Code size'' ''code-size'') docblock))
       (\<lambda>docblock.
     and_then (prepend_new (createDependencySection cargoAddCommand) docblock) (\<lambda>docblock.
       prepend_new (createFirstSection_ts manifestRelPath manifestHref license)
         docblock))))))"

definition modify_md ::
  "string \<Rightarrow> string \<Rightarrow> string \<Rightarrow> string \<Rightarrow> string option \<Rightarrow>
   (string \<times> string) list \<Rightarrow> node \<Rightarrow> error \<times> node + node" where
  "modify_md manifestRelPath manifestHref license cargoAddCommand codeSizeUnmodified
     verifiedWith docblock =
     and_then (downgradeSectionHeaders docblock) (\<lambda>docblock.
     and_then (prepend_new (createHeader ''Description'' ''description'') docblock) (\<lambda>docblock.
     and_then (prepend_new (createVerifiedWithSection_md verifiedWith) docblock) (\<lambda>docblock.
     and_then (prepend_new (createHeader ''Verified with'' ''verified-with'') docblock)
       (\<lambda>docblock.
     and_then
       (case codeSizeUnmodified of
          None \<Rightarrow> Inr docblock
        | Some sz \<Rightarrow>
            and_then (prepend_new (createCodeSizeSection_ts sz) docblock) (\<lambda>docblock.
              prepend_new (createHeader ''Code size'' ''code-size'') docblock))
       (\<lambda>docblock.
     and_then (prepend_new (createDependencySection cargoAddCommand) docblock) (\<lambda>docblock.
       prepend_new (createFirstSection_ts manifestRelPath manifestHref license)
         docblock))))))"

text \<open>
  A routine working on the container at position \<open>p\<close> of the document: what it has made of
  the container, when it returns and when it throws, is in the document.
\<close>

definition within ::
  "path \<Rightarrow> (node \<Rightarrow> error \<times> node + node) \<Rightarrow> node \<Rightarrow> error \<times> node + node" where
  "within p routine root =
     (case node_at root p of
        None \<Rightarrow> Inr root
      | Some docblock \<Rightarrow>
          (case routine docblock of
             Inl (e, docblock') \<Rightarrow> Inl (e, update_at p (\<lambda>n. docblock') root)
           | Inr docblock' \<Rightarrow> Inr (update_at p (\<lambda>n. docblock') root)))"

text \<open>
  A listener is the closure that \<open>registerModification\<close> registers, with the arguments it
  captured: the plain script's or the TypeScript variant's.
\<close>

datatype listener =
    Listener_js string string string "(string \<times> string) list" "codeSize option"
      "(string \<times> string) list"
  | Listener_ts string string string string "string option" "(string \<times> string) list"

record page =
  pathname :: string
  document :: node
  listeners :: "listener list"

text \<open>\<open>modifyDocblock\<close> (first file of injection/index.ts) runs when it is called; an
  exception reaches its caller, with the page as it then is.\<close>

definition modifyDocblock ::
  "string \<Rightarrow> string \<Rightarrow> string \<Rightarrow> string \<Rightarrow> string option \<Rightarrow>
   (string \<times> string) list \<Rightarrow> page \<Rightarrow> error \<times> page + page" where
  "modifyDocblock manifestRelPath manifestHref license cargoAddCommand codeSizeUnmodified
     verifiedWith pg =
     (case querySelector ''.docblock'' (document pg) of
        None \<Rightarrow> Inr pg
      | Some docblock \<Rightarrow>
          (case within docblock
                  (modify_md manifestRelPath manifestHref license cargoAddCommand
                     codeSizeUnmodified verifiedWith)
                  (document pg) of
             Inl (e, root) \<Rightarrow> Inl (e, pg\<lparr>document := root\<rparr>)
           | Inr root \<Rightarrow> Inr (pg\<lparr>document := root\<rparr>)))"

text \<open>\<open>registerModification\<close> of the plain script (part 000).\<close>

definition registerModification ::
  "string \<Rightarrow> string \<Rightarrow> string \<Rightarrow> (string \<times> string) list \<Rightarrow> codeSize option \<Rightarrow>
   (string \<times> string) list \<Rightarrow> page \<Rightarrow> page" where
  "registerModification manifestDirBlobURL license cargoAddCommand dependencyUL
     codeSizeUnmodified verifiedWith pg =
     (if \<not> endsWith (pathname pg) ''/index.html'' then pg
      else pg\<lparr>listeners := listeners pg @
             [Listener_js manifestDirBlobURL license cargoAddCommand dependencyUL
                codeSizeUnmodified verifiedWith]\<rparr>)"

text \<open>\<open>registerModification\<close> of the TypeScript variant (second file of injection/index.ts).\<close>

definition registerModification_ts ::
  "string \<Rightarrow> string \<Rightarrow> string \<Rightarrow> string \<Rightarrow> string option \<Rightarrow>
   (string \<times> string) list \<Rightarrow> page \<Rightarrow> page" where
  "registerModification_ts manifestRelPath manifestHref license cargoAddCommand
     codeSizeUnmodified verifiedWith pg =
     (if \<not> endsWith (pathname pg) ''/index.html'' then pg
      else pg\<lparr>listeners := listeners pg @
             [Listener_ts manifestRelPath manifestHref license cargoAddCommand
                codeSizeUnmodified verifiedWith]\<rparr>)"

text \<open>The registered callback, run on the document: it returns the document it has made
  (\<open>Inr\<close>), or throws and leaves the document as it then is (\<open>Inl\<close>).\<close>

fun handleEvent :: "listener \<Rightarrow> node \<Rightarrow> error \<times> node + node" where
  "handleEvent (Listener_js manifestDirBlobURL license cargoAddCommand dependencyUL
      codeSizeUnmodified verifiedWith) root =
     (case findOrCreateDocblock root of
        Inl (e, root') \<Rightarrow> Inl (e, root')
      | Inr (root', None) \<Rightarrow> Inr root'
      | Inr (root', Some docblock) \<Rightarrow>
          within docblock
            (modify_js manifestDirBlobURL license cargoAddCommand dependencyUL
               codeSizeUnmodified verifiedWith)
            root')"
| "handleEvent (Listener_ts manifestRelPath manifestHref license cargoAddCommand
      codeSizeUnmodified verifiedWith) root =
     (case findOrCreateDocblock root of
        Inl (e, root') \<Rightarrow> Inl (e, root')
      | Inr (root', None) \<Rightarrow> Inr root'
      | Inr (root', Some docblock) \<Rightarrow>
          within docblock
            (modify_ts manifestRelPath manifestHref license cargoAddCommand
               codeSizeUnmodified verifiedWith)
            root')"

text \<open>
  The event \<open>DOMContentLoaded\<close> runs the listeners in the order of their registration. An
  exception of a listener is reported and ends that listener only: the document keeps what
  the listener had done to it.
\<close>

definition invoke :: "node \<Rightarrow> listener \<Rightarrow> node" where
  "invoke root l = (case handleEvent l root of Inl (e, root') \<Rightarrow> root' | Inr root' \<Rightarrow> root')"

definition DOMContentLoaded :: "page \<Rightarrow> page" where
  "DOMContentLoaded pg = pg\<lparr>document := foldl invoke (document pg) (listeners pg)\<rparr>"


section \<open>Notions used to state the properties\<close>

text \<open>The label of a node is the node without its children.\<close>

datatype label = TextLabel string | ElementLabel string attrs

fun label_of :: "node \<Rightarrow> label" where
  "label_of (Text s) = TextLabel s"
| "label_of (Element t a cs) = ElementLabel t a"







text \<open>
  The replacement that \<open>replace_sectionHeader\<close> builds, as a function of the header; the node
  that takes the header's place, which is the header itself when the callback throws; and
  the replacement of an element of \<open>html_element\<close>.
\<close>

fun replacement_of :: "node \<Rightarrow> error + node" where
  "replacement_of (Element t a cs) =
     and_then (createElement (downgraded_tagName t)) (\<lambda>replacement.
     and_then (for_each (\<lambda>replacement (name, v). setAttribute name v replacement)
                 a replacement) (\<lambda>replacement.
       Inr (append_nodes cs replacement)))"
| "replacement_of (Text s) = Inr (Text s)"

definition successor_of :: "node \<Rightarrow> node" where
  "successor_of n = (case replacement_of n of Inl e \<Rightarrow> n | Inr r \<Rightarrow> r)"


text \<open>The fragments as HTML: what each of the functions above returns.\<close>

definition header_html :: "string \<Rightarrow> string \<Rightarrow> node" where
  "header_html name ident =
     Element ''H1'' [(''id'', ident), (''class'', ''section-header'')]
       [Element ''A'' [(''href'', ''#'' @ ident)] [Text name]]"

definition mark_html :: "string \<Rightarrow> string \<Rightarrow> node" where
  "mark_html src c =
     Element ''IMG''
       [(''src'', src), (''alt'', c), (''title'', c), (''width'', ''20''), (''height'', ''20'')]
       []"

definition verified_list_html :: "(string \<times> string) list \<Rightarrow> node" where
  "verified_list_html verifiedWith =
     Element ''UL'' []
       (map (\<lambda>(problemURL, blobURL).
          Element ''LI'' []
            [Element ''A'' [(''href'', problemURL)] [Text problemURL], Text '' ('',
             Element ''A'' [(''href'', blobURL)] [Text ''code''], Text '')''])
        verifiedWith)"

definition verified_html :: "(string \<times> string) list \<Rightarrow> node" where
  "verified_html verifiedWith =
     Element ''DIV'' []
       ((if verifiedWith = [] then
           [Element ''STRONG'' []
              [mark_html ''https://github.githubassets.com/images/icons/emoji/unicode/26a0.png''
                 warning_char,
               Text '' This library is not verified.'']]
         else
           [mark_html ''https://github.githubassets.com/images/icons/emoji/unicode/2714.png''
              heavy_check_mark_char,
            Text (if length verifiedWith = 1 then '' This library verified with 1 solution.''
                  else '' This library verified with '' @ string_of_nat (length verifiedWith)
                       @ '' solutions.'')])
        @ [verified_list_html verifiedWith])"

definition placeholders_html :: "node list" where
  "placeholders_html =
     [Element ''LI'' []
        [Element ''CODE'' [] [Text ''#[cfg]''],
         Text '' resolved + (doc-)comment removed + Rustfmt: (not yet implemented)''],
      Element ''LI'' []
        [Element ''CODE'' [] [Text ''#[cfg]''],
         Text '' resolved + doc-comment removed + minified: (not yet implemented)'']]"

definition code_size_html :: "codeSize \<Rightarrow> node" where
  "code_size_html codeSizeUnmodified =
     Element ''UL'' []
       (Element ''LI'' []
          [Text ''unmodified: '',
           (case codeSizeUnmodified of
              SizeNumber n \<Rightarrow>
                Text (string_of_int (n div 1024) @ ''.''
                      @ string_of_int ((10 * js_rem n 1024) div 1024) @ '' KiB'')
            | SizeString s \<Rightarrow> Element ''CODE'' [] [Text s]),
           Text '' + (not yet implemented) KiB'']
        # placeholders_html)"

definition code_size_ts_html :: "string \<Rightarrow> node" where
  "code_size_ts_html codeSizeUnmodified =
     Element ''UL'' []
       [Element ''LI'' []
          [Text (''unmodified: '' @ codeSizeUnmodified @ '' KiB + (not yet implemented) KiB'')]]"

definition dependencies_html :: "(string \<times> string) list \<Rightarrow> node" where
  "dependencies_html items =
     (if items = [] then Text ''No dependencies.''
      else Element ''UL'' []
             (map (\<lambda>(text, href).
                Element ''LI'' [] [Element ''A'' [(''href'', href)] [Text text]]) items))"

definition command_html :: "string \<Rightarrow> node" where
  "command_html cargoAddCommand =
     Element ''PRE'' []
       [Element ''CODE'' [(''class'', ''language-console'')]
          [Text (''$ '' @ cargoAddCommand @ [CHR 0x0A])]]"

definition first_html :: "string \<Rightarrow> string \<Rightarrow> node" where
  "first_html manifestDirBlobURL license =
     Element ''UL'' []
       [Element ''LI'' [] [Element ''A'' [(''href'', manifestDirBlobURL)] [Text ''View on GitHub'']],
        Element ''LI'' [] [Text ''License: '', Element ''CODE'' [] [Text license]]]"

definition first_ts_html :: "string \<Rightarrow> string \<Rightarrow> string \<Rightarrow> node" where
  "first_ts_html manifestRelPath manifestHref license =
     Element ''UL'' []
       [Element ''LI'' []
          [Text ''Manifest: '',
           Element ''A'' [(''href'', manifestHref)] [Element ''CODE'' [] [Text manifestRelPath]]],
        Element ''LI'' [] [Text ''License: '', Element ''CODE'' [] [Text license]]]"

definition toggle_wrapper_html :: node where
  "toggle_wrapper_html =
     Element ''DIV'' [(''class'', ''toggle-wrapper'')]
       [Element ''A'' [(''class'', ''collapse-toggle''), (''href'', ''javascript:void(0)'')]
          [Text ''['',
           Element ''SPAN'' [(''class'', ''inner'')] [Text ''-''],
           Text ''] '',
           Element ''SPAN'' [(''class'', ''toggle-label''), (''style'', ''display: none;'')]
             [Text '' Expand description'']]]"

text \<open>The fragments of each routine, listed from the top of the container downwards.\<close>

definition presentation_js ::
  "string \<Rightarrow> string \<Rightarrow> string \<Rightarrow> (string \<times> string) list \<Rightarrow> codeSize option \<Rightarrow>
   (string \<times> string) list \<Rightarrow> node list" where
  "presentation_js manifestDirBlobURL license cargoAddCommand dependencyUL codeSizeUnmodified
     verifiedWith =
     [first_html manifestDirBlobURL license,
      command_html cargoAddCommand,
      header_html ''Dependencies'' ''dependencies'',
      dependencies_html dependencyUL]
     @ (case codeSizeUnmodified of
          None \<Rightarrow> []
        | Some sz \<Rightarrow> [header_html ''Code size'' ''code-size'', code_size_html sz])
     @ [header_html ''Verified with'' ''verified-with'',
        verified_html verifiedWith,
        header_html ''Description'' ''description'']"

definition presentation_md ::
  "string \<Rightarrow> string \<Rightarrow> string \<Rightarrow> string \<Rightarrow> string option \<Rightarrow>
   (string \<times> string) list \<Rightarrow> node list" where
  "presentation_md manifestRelPath manifestHref license cargoAddCommand codeSizeUnmodified
     verifiedWith =
     [first_ts_html manifestRelPath manifestHref license,
      command_html cargoAddCommand]
     @ (case codeSizeUnmodified of
          None \<Rightarrow> []
        | Some sz \<Rightarrow> [header_html ''Code size'' ''code-size'', code_size_ts_html sz])
     @ [header_html ''Verified with'' ''verified-with'',
        verified_list_html verifiedWith,
        header_html ''Description'' ''description'']"

definition presentation_ts ::
  "string \<Rightarrow> string \<Rightarrow> string \<Rightarrow> string \<Rightarrow> string option \<Rightarrow>
   (string \<times> string) list \<Rightarrow> node list" where
  "presentation_ts manifestRelPath manifestHref license cargoAddCommand codeSizeUnmodified
     verifiedWith =
     [first_ts_html manifestRelPath manifestHref license,
      command_html cargoAddCommand]
     @ (case codeSizeUnmodified of
          None \<Rightarrow> []
        | Some sz \<Rightarrow> [header_html ''Code size'' ''code-size'', code_size_ts_html sz])
     @ [header_html ''Verified with'' ''verified-with'',
        verified_html verifiedWith,
        header_html ''Description'' ''description'']"

subsection \<open>Example pages\<close>

definition example_docblock :: node where
  "example_docblock =
     Element ''DIV'' [(''class'', ''docblock'')]
       [Element ''P'' [] [Text ''A segment tree.''],
        Element ''H1'' [(''id'', ''example''), (''class'', ''section-header'')]
          [Element ''A'' [(''href'', ''#example'')] [Text ''Example'']],
        Element ''H6'' [(''id'', ''note''), (''class'', ''small section-header'')]
          [Text ''Note'']]"


definition example_nested :: node where
  "example_nested =
     Element ''DIV'' [(''class'', ''docblock'')]
       [Element ''H1'' [(''class'', ''section-header'')]
          [Element ''H2'' [(''class'', ''section-header'')] [Text ''Inner'']]]"

text \<open>
  A header with the attribute that the HTML parser makes of
  \<^verbatim>\<open><h1 class="section-header" =x="y">\<close>, between two sound headers; and an \<open>svg\<close> element
  marked as a header.
\<close>

definition example_refused_name :: node where
  "example_refused_name =
     Element ''DIV'' [(''class'', ''docblock'')]
       [Element ''H1'' [(''class'', ''section-header'')] [Text ''Zero''],
        Element ''H1'' [(''class'', ''section-header''), (''=x'', ''y'')] [Text ''First''],
        Element ''H2'' [(''class'', ''section-header'')] [Text ''Second'']]"


definition example_document :: node where
  "example_document =
     Element ''HTML'' []
       [Element ''BODY'' []
          [Element ''H1'' [(''class'', ''fqn'')] [Text ''Crate segtree''],
           example_docblock]]"

definition example_document_anchor_only :: node where
  "example_document_anchor_only =
     Element ''HTML'' []
       [Element ''BODY'' []
          [Element ''H1'' [(''class'', ''fqn'')] [Text ''Crate segtree''],
           Element ''P'' [] [Text ''footer'']]]"

definition example_document_created :: node where
  "example_document_created =
     Element ''HTML'' []
       [Element ''BODY'' []
          [Element ''H1'' [(''class'', ''fqn'')] [Text ''Crate segtree''],
           toggle_wrapper_html,
           Element ''DIV'' [(''class'', ''docblock'')] [],
           Element ''P'' [] [Text ''footer'']]]"

definition example_document_bare :: node where
  "example_document_bare =
     Element ''HTML'' [] [Element ''BODY'' [] [Element ''P'' [] [Text ''Nothing here.'']]]"

definition example_document_refused_name :: node where
  "example_document_refused_name =
     Element ''HTML'' [] [Element ''BODY'' [] [example_refused_name]]"

definition example_page :: page where
  "example_page =
     \<lparr>pathname = ''/segtree/index.html'', document = example_document, listeners = []\<rparr>"

definition example_page_anchor_only :: page where
  "example_page_anchor_only =
     \<lparr>pathname = ''/segtree/index.html'', document = example_document_anchor_only,
      listeners = []\<rparr>"

definition example_page_bare :: page where
  "example_page_bare =
     \<lparr>pathname = ''/segtree/index.html'', document = example_document_bare, listeners = []\<rparr>"

definition example_page_struct :: page where
  "example_page_struct =
     \<lparr>pathname = ''/segtree/struct.Segtree.html'', document = example_document,
      listeners = []\<rparr>"

definition example_page_refused_name :: page where
  "example_page_refused_name =
     \<lparr>pathname = ''/segtree/index.html'', document = example_document_refused_name,
      listeners = []\<rparr>"

definition example_verifiedWith :: "(string \<times> string) list" where
  "example_verifiedWith =
     [(''https://judge.example/problems/1'', ''https://github.com/u/r/blob/main/a.rs''),
      (''https://judge.example/problems/2'', ''https://github.com/u/r/blob/main/b.rs'')]"

definition example_dependencies :: "(string \<times> string) list" where
  "example_dependencies = [(''modint'', ''../modint/index.html'')]"

text \<open>The example container after the heading downgrade.\<close>

definition example_docblock_downgraded :: node where
  "example_docblock_downgraded =
     Element ''DIV'' [(''class'', ''docblock'')]
       [Element ''P'' [] [Text ''A segment tree.''],
        Element ''H2'' [(''id'', ''example''), (''class'', ''section-header'')]
          [Element ''A'' [(''href'', ''#example'')] [Text ''Example'']],
        Element ''H6'' [(''id'', ''note''), (''class'', ''small section-header'')]
          [Text ''Note'']]"

text \<open>The container with the refused attribute name, as the pass leaves it when it throws.\<close>

definition example_refused_name_left :: node where
  "example_refused_name_left =
     Element ''DIV'' [(''class'', ''docblock'')]
       [Element ''H2'' [(''class'', ''section-header'')] [Text ''Zero''],
        Element ''H1'' [(''class'', ''section-header''), (''=x'', ''y'')] [Text ''First''],
        Element ''H2'' [(''class'', ''section-header'')] [Text ''Second'']]"


section \<open>Strings, numbers and fragments: basic facts\<close>

lemma and_then_simps [simp]:
  "and_then (Inr x) f = f x"
  "and_then (Inl e) f = Inl e"
  by (simp_all add: and_then_def)

lemma xml_name_literals:
  "xml_name ''id''" "xml_name ''class''" "xml_name ''href''" "xml_name ''src''"
  "xml_name ''alt''" "xml_name ''title''" "xml_name ''width''" "xml_name ''height''"
  "xml_name ''style''"
  by code_simp+

text \<open>Names that the HTML parser makes and \<open>setAttribute\<close> refuses, and names it accepts.\<close>

lemma xml_name_examples:
  "\<not> xml_name ''=x''" "\<not> xml_name []" "\<not> xml_name ''1x''" "\<not> xml_name ''a b''"
  "xml_name ''data-x''" "xml_name ''xlink:href''" "xml_name ''viewBox''"
  "xml_name [CHR 0xC3, CHR 0xA9]" "\<not> xml_name [CHR 0xC3, CHR 0x97]"
  by code_simp+

lemma createElement_simps:
  "createElement ''h1'' = Inr (Element ''H1'' [] [])"
  "createElement ''a'' = Inr (Element ''A'' [] [])"
  "createElement ''img'' = Inr (Element ''IMG'' [] [])"
  "createElement ''div'' = Inr (Element ''DIV'' [] [])"
  "createElement ''strong'' = Inr (Element ''STRONG'' [] [])"
  "createElement ''ul'' = Inr (Element ''UL'' [] [])"
  "createElement ''li'' = Inr (Element ''LI'' [] [])"
  "createElement ''code'' = Inr (Element ''CODE'' [] [])"
  "createElement ''pre'' = Inr (Element ''PRE'' [] [])"
  "createElement ''span'' = Inr (Element ''SPAN'' [] [])"
  by code_simp+

lemma createHeader_eq: "createHeader name ident = Inr (header_html name ident)"
  by (simp add: createHeader_def header_html_def createElement_simps xml_name_literals
      createTextNode_def toLowerChar_def)

lemma createMark_eq: "createMark src c = Inr (mark_html src c)"
  by (simp add: createMark_def mark_html_def createElement_simps xml_name_literals
      toLowerChar_def)

lemma for_each_verifiedWith_item:
  "for_each verifiedWith_item vw (Element t a cs) =
     Inr (Element t a (cs @ map (\<lambda>(problemURL, blobURL).
        Element ''LI'' []
          [Element ''A'' [(''href'', problemURL)] [Text problemURL], Text '' ('',
           Element ''A'' [(''href'', blobURL)] [Text ''code''], Text '')'']) vw))"
  by (induction vw arbitrary: cs)
     (auto simp: verifiedWith_item_def createElement_simps xml_name_literals toLowerChar_def)

lemma for_each_dependencies_item:
  "for_each dependencies_item items (Element t a cs) =
     Inr (Element t a (cs @ map (\<lambda>(text, href).
        Element ''LI'' [] [Element ''A'' [(''href'', href)] [Text text]]) items))"
  by (induction items arbitrary: cs)
     (auto simp: dependencies_item_def createElement_simps xml_name_literals toLowerChar_def)

lemma createVerifiedWithSection_eq:
  "createVerifiedWithSection verifiedWith = Inr (verified_html verifiedWith)"
  by (simp add: createVerifiedWithSection_def verified_html_def verified_list_html_def
      createElement_simps for_each_verifiedWith_item createWarningMark_def
      createHeavyCheckMark_def createMark_eq)

lemma createVerifiedWithSection_md_eq:
  "createVerifiedWithSection_md verifiedWith = Inr (verified_list_html verifiedWith)"
  by (simp add: createVerifiedWithSection_md_def verified_list_html_def createElement_simps
      for_each_verifiedWith_item)

lemma createCodeSizeSection_eq:
  "createCodeSizeSection codeSizeUnmodified = Inr (code_size_html codeSizeUnmodified)"
  by (cases codeSizeUnmodified)
     (simp_all add: createCodeSizeSection_def code_size_html_def placeholders_html_def
        createElement_simps Let_def)

lemma createCodeSizeSection_ts_eq:
  "createCodeSizeSection_ts codeSizeUnmodified = Inr (code_size_ts_html codeSizeUnmodified)"
  by (simp add: createCodeSizeSection_ts_def code_size_ts_html_def createElement_simps)

lemma createDependenciesSection_eq:
  "and_then (createDependenciesSection items) (\<lambda>arg. Inr (node_of_arg arg)) =
     Inr (dependencies_html items)"
  by (simp add: createDependenciesSection_def dependencies_html_def createElement_simps
      for_each_dependencies_item)

lemma createCargoAddCommandSection_eq:
  "createCargoAddCommandSection cargoAddCommand = Inr (command_html cargoAddCommand)"
  by (simp add: createCargoAddCommandSection_def command_html_def createElement_simps
      xml_name_literals toLowerChar_def)

lemma createDependencySection_eq:
  "createDependencySection cargoAddCommand = Inr (command_html cargoAddCommand)"
  by (simp add: createDependencySection_def command_html_def createElement_simps
      xml_name_literals toLowerChar_def)

lemma createFirstSection_eq:
  "createFirstSection manifestDirBlobURL license = Inr (first_html manifestDirBlobURL license)"
  by (simp add: createFirstSection_def first_html_def createElement_simps xml_name_literals
      toLowerChar_def)

lemma createFirstSection_ts_eq:
  "createFirstSection_ts manifestRelPath manifestHref license =
     Inr (first_ts_html manifestRelPath manifestHref license)"
  by (simp add: createFirstSection_ts_def first_ts_html_def createElement_simps
      xml_name_literals toLowerChar_def)

lemma createToggleWrapper_eq: "createToggleWrapper = Inr toggle_wrapper_html"
  by (simp add: createToggleWrapper_def toggle_wrapper_html_def createElement_simps
      xml_name_literals toLowerChar_def)

lemma digit_value_nth: "d < 10 \<Longrightarrow> digit_value (''0123456789'' ! d) = d"
proof -
  assume "d < 10"
  then have "d \<in> {0, 1, 2, 3, 4, 5, 6, 7, 8, 9}" by auto
  then show ?thesis by (auto simp: digit_value_def)
qed

text \<open>\<open>string_of_nat\<close> prints its argument: read as a decimal numeral, the string is the
  number.\<close>

lemma decimal_value_string_of_nat: "decimal_value (string_of_nat n) = n"
proof (induction n rule: string_of_nat.induct)
  case (1 n)
  show ?case
  proof (cases "n < 10")
    case True
    then show ?thesis
      by (simp add: string_of_nat.simps[of n] decimal_value_def digit_value_nth)
  next
    case False
    with 1 have "decimal_value (string_of_nat (n div 10)) = n div 10" by simp
    with False show ?thesis
      by (simp add: string_of_nat.simps[of n] decimal_value_def digit_value_nth)
  qed
qed

lemma string_of_int_nonneg: "0 \<le> i \<Longrightarrow> string_of_int i = string_of_nat (nat i)"
  by (simp add: string_of_int_def)


section \<open>Positions and selection: basic facts\<close>


lemma update_at_invalid: "node_at d p = None \<Longrightarrow> update_at p f d = d"
proof (induction p arbitrary: d)
  case Nil
  then show ?case by simp
next
  case (Cons i p)
  then show ?case by (cases d) (auto split: if_splits)
qed

lemma update_at_const: "node_at d p = Some n \<Longrightarrow> update_at p (\<lambda>x. g n) d = update_at p g d"
proof (induction p arbitrary: d)
  case Nil
  then show ?case by simp
next
  case (Cons i p)
  then show ?case by (cases d) (auto split: if_splits)
qed

lemma node_at_update_at_same: "node_at d p = Some n \<Longrightarrow> node_at (update_at p f d) p = Some (f n)"
proof (induction p arbitrary: d)
  case Nil
  then show ?case by simp
next
  case (Cons i p)
  then show ?case by (cases d) (auto split: if_splits)
qed



lemma update_at_same_node: "node_at d p = Some n \<Longrightarrow> update_at p (\<lambda>x. n) d = d"
proof (induction p arbitrary: d)
  case Nil
  then show ?case by simp
next
  case (Cons i p)
  then show ?case by (cases d) (auto split: if_splits)
qed

lemma node_at_append:
  "node_at d (p @ q) = (case node_at d p of None \<Rightarrow> None | Some n \<Rightarrow> node_at n q)"
proof (induction p arbitrary: d)
  case Nil
  then show ?case by simp
next
  case (Cons i p)
  then show ?case by (cases d) auto
qed

lemma update_at_update_at: "update_at p f (update_at p g d) = update_at p (\<lambda>n. f (g n)) d"
proof (induction p arbitrary: d)
  case Nil
  then show ?case by simp
next
  case (Cons i p)
  then show ?case by (cases d) auto
qed

lemma node_at_update_at_below:
  "node_at d p = Some n \<Longrightarrow> node_at (update_at p f d) (p @ r) = node_at (f n) r"
  by (simp add: node_at_append node_at_update_at_same)

lemma node_at_snoc:
  assumes "node_at d (p @ [i]) = Some n"
  shows "\<exists>t a cs. node_at d p = Some (Element t a cs) \<and> i < length cs \<and> cs ! i = n"
proof -
  from assms obtain m where m: "node_at d p = Some m" "node_at m [i] = Some n"
    by (auto simp: node_at_append split: option.splits)
  then show ?thesis by (cases m) (auto split: if_splits)
qed


lemma select_list_set:
  "set (select_list sel i cs) =
     {(i + j) # r | j r. j < length cs \<and> r \<in> set (select_node sel (cs ! j))}"
proof (induction cs arbitrary: i)
  case Nil
  then show ?case by simp
next
  case (Cons c cs)
  show ?case
  proof (rule set_eqI, rule iffI)
    fix p assume "p \<in> set (select_list sel i (c # cs))"
    then consider r where "p = i # r" "r \<in> set (select_node sel c)"
      | "p \<in> set (select_list sel (Suc i) cs)" by auto
    then show "p \<in> {(i + j) # r | j r. j < length (c # cs) \<and> r \<in> set (select_node sel ((c # cs) ! j))}"
    proof cases
      case 1
      then show ?thesis by (intro CollectI exI[of _ 0] exI[of _ r]) simp
    next
      case 2
      then obtain j r where "p = (Suc i + j) # r" "j < length cs" "r \<in> set (select_node sel (cs ! j))"
        unfolding Cons.IH by auto
      then show ?thesis by (intro CollectI exI[of _ "Suc j"] exI[of _ r]) simp
    qed
  next
    fix p assume "p \<in> {(i + j) # r | j r. j < length (c # cs) \<and> r \<in> set (select_node sel ((c # cs) ! j))}"
    then obtain j r where p: "p = (i + j) # r" "j < length (c # cs)" "r \<in> set (select_node sel ((c # cs) ! j))"
      by auto
    show "p \<in> set (select_list sel i (c # cs))"
    proof (cases j)
      case 0
      then show ?thesis using p by simp
    next
      case (Suc k)
      then have "p \<in> {(Suc i + j) # r | j r. j < length cs \<and> r \<in> set (select_node sel (cs ! j))}"
        using p by auto
      then show ?thesis unfolding Cons.IH[symmetric] by simp
    qed
  qed
qed

lemma select_node_valid:
  "p \<in> set (select_node sel n) \<Longrightarrow>
     \<exists>t a cs. node_at n p = Some (Element t a cs) \<and> matches sel (Element t a cs)"
proof (induction p arbitrary: n)
  case Nil
  then show ?case by (cases n) (auto simp: select_list_set split: if_splits)
next
  case (Cons i p)
  then show ?case by (cases n) (auto simp: select_list_set split: if_splits)
qed



lemma querySelector_valid:
  assumes "querySelector sel root = Some p"
  shows "\<exists>t a cs. node_at root p = Some (Element t a cs) \<and> matches sel (Element t a cs)"
proof -
  from assms have "p \<in> set (select_node sel root)"
    by (auto simp: querySelector_def split: list.splits)
  then show ?thesis by (rule select_node_valid)
qed

lemma querySelectorAll_nonempty: "[] \<notin> set (querySelectorAll sel el)"
  by (simp add: querySelectorAll_def select_list_set)


lemma prepend_prepend: "prepend xs (prepend ys n) = prepend (xs @ ys) n"
  by (cases n) simp_all

section \<open>The heading downgrade: basic facts\<close>


lemma replace_sectionHeader_replacement:
  "replace_sectionHeader d p =
     (case node_at d p of
        None \<Rightarrow> Inr d
      | Some n \<Rightarrow> and_then (replacement_of n) (\<lambda>r. Inr (update_at p (\<lambda>x. r) d)))"
proof (cases "node_at d p")
  case None
  then show ?thesis by (simp add: replace_sectionHeader_def)
next
  case (Some n)
  show ?thesis
  proof (cases n)
    case (Text s)
    with Some show ?thesis
      by (simp add: replace_sectionHeader_def update_at_same_node)
  next
    case (Element t a cs)
    with Some show ?thesis
      by (simp add: replace_sectionHeader_def and_then_def split: sum.split)
  qed
qed

lemma replace_sectionHeader_returns:
  assumes "replace_sectionHeader d p = Inr d'"
  shows "d' = update_at p successor_of d"
proof (cases "node_at d p")
  case None
  with assms show ?thesis
    by (simp add: replace_sectionHeader_replacement update_at_invalid)
next
  case (Some n)
  with assms obtain r where r: "replacement_of n = Inr r" and d': "d' = update_at p (\<lambda>x. r) d"
    by (cases "replacement_of n") (auto simp: replace_sectionHeader_replacement)
  from r have "successor_of n = r" by (simp add: successor_of_def)
  with update_at_const[OF Some, of successor_of] d' show ?thesis by simp
qed

lemma update_at_below_root:
  "p \<noteq> [] \<Longrightarrow>
   label_of (update_at p f d) = label_of d \<and>
   length (childNodes (update_at p f d)) = length (childNodes d)"
  by (cases p; cases d) auto

lemma forEach_keeps_root:
  assumes "\<forall>p \<in> set ps. p \<noteq> []"
      and "forEach replace_sectionHeader ps d = Inr d' \<or>
           forEach replace_sectionHeader ps d = Inl (e, d')"
  shows "label_of d' = label_of d \<and> length (childNodes d') = length (childNodes d)"
  using assms
proof (induction ps arbitrary: d)
  case Nil
  then show ?case by simp
next
  case (Cons p ps)
  show ?case
  proof (cases "replace_sectionHeader d p")
    case (Inl e')
    with Cons.prems show ?thesis by simp
  next
    case (Inr d1)
    from replace_sectionHeader_returns[OF Inr] Cons.prems(1)
    have keep: "label_of d1 = label_of d \<and> length (childNodes d1) = length (childNodes d)"
      by (simp add: update_at_below_root)
    from Cons.prems Inr have "forEach replace_sectionHeader ps d1 = Inr d' \<or>
        forEach replace_sectionHeader ps d1 = Inl (e, d')" by simp
    with Cons.IH[of d1] Cons.prems(1) keep show ?thesis by simp
  qed
qed

text \<open>Whether the pass returns or throws, the container keeps its tag, its attributes and
  the number of its children.\<close>

lemma downgradeSectionHeaders_keeps_root:
  assumes "downgradeSectionHeaders (Element t a cs) = Inr d \<or>
           downgradeSectionHeaders (Element t a cs) = Inl (e, d)"
  shows "\<exists>cs'. d = Element t a cs' \<and> length cs' = length cs"
proof -
  have "\<forall>p \<in> set (querySelectorAll ''.section-header'' (Element t a cs)). p \<noteq> []"
    using querySelectorAll_nonempty by metis
  from forEach_keeps_root[OF this, of "Element t a cs" d e] assms
  have "label_of d = ElementLabel t a \<and> length (childNodes d) = length cs"
    by (simp add: downgradeSectionHeaders_def)
  then show ?thesis by (cases d) auto
qed

lemma downgradeSectionHeaders_total:
  "(\<exists>d. downgradeSectionHeaders n = Inr d) \<or> (\<exists>e d. downgradeSectionHeaders n = Inl (e, d))"
  by (cases "downgradeSectionHeaders n") auto

subsection \<open>On the elements of a parsed page\<close>















section \<open>The routines on a page: basic facts\<close>

lemma prepend_new_returned [simp]: "prepend_new (Inr n) docblock = Inr (prepend [n] docblock)"
  by (simp add: prepend_new_def)

lemma thrown_at_returned [simp]: "thrown_at s (Inr x) = Inr x"
  by (simp add: thrown_at_def)

lemma thrown_at_thrown [simp]: "thrown_at s (Inl e) = Inl (e, s)"
  by (simp add: thrown_at_def)

lemma prepend_Element:
  "d = Element t a cs \<Longrightarrow> prepend ns d = Element t a (ns @ childNodes d)"
  by simp

text \<open>Each routine downgrades first and, if that returns, prepends all of its fragments.\<close>

lemma modify_js_eq:
  "modify_js m l c dep s vw docblock =
     and_then (downgradeSectionHeaders docblock)
       (\<lambda>db. Inr (prepend (presentation_js m l c dep s vw) db))"
  by (cases "downgradeSectionHeaders docblock")
     (simp_all add: modify_js_def presentation_js_def prepend_prepend createHeader_eq
        createVerifiedWithSection_eq createCodeSizeSection_eq createDependenciesSection_eq
        createCargoAddCommandSection_eq createFirstSection_eq split: option.split)

lemma modify_ts_eq:
  "modify_ts r h l c s vw docblock =
     and_then (downgradeSectionHeaders docblock)
       (\<lambda>db. Inr (prepend (presentation_ts r h l c s vw) db))"
  by (cases "downgradeSectionHeaders docblock")
     (simp_all add: modify_ts_def presentation_ts_def prepend_prepend createHeader_eq
        createVerifiedWithSection_eq createCodeSizeSection_ts_eq createDependencySection_eq
        createFirstSection_ts_eq split: option.split)

lemma modify_md_eq:
  "modify_md r h l c s vw docblock =
     and_then (downgradeSectionHeaders docblock)
       (\<lambda>db. Inr (prepend (presentation_md r h l c s vw) db))"
  by (cases "downgradeSectionHeaders docblock")
     (simp_all add: modify_md_def presentation_md_def prepend_prepend createHeader_eq
        createVerifiedWithSection_md_eq createCodeSizeSection_ts_eq createDependencySection_eq
        createFirstSection_ts_eq split: option.split)

lemma prepend_Nil: "prepend [] d = d"
  by (cases d) simp_all

lemma foldl_prepend: "foldl (\<lambda>db n. prepend [n] db) d ns = prepend (rev ns) d"
  by (induction ns arbitrary: d) (simp_all add: prepend_prepend prepend_Nil)

lemma modify_js_reverse:
  "modify_js m l c dep s vw docblock =
     and_then (downgradeSectionHeaders docblock)
       (\<lambda>db. Inr (foldl (\<lambda>db n. prepend [n] db) db (rev (presentation_js m l c dep s vw))))"
  by (simp add: modify_js_eq foldl_prepend)

lemma modify_md_reverse:
  "modify_md r h l c s vw docblock =
     and_then (downgradeSectionHeaders docblock)
       (\<lambda>db. Inr (foldl (\<lambda>db n. prepend [n] db) db (rev (presentation_md r h l c s vw))))"
  by (simp add: modify_md_eq foldl_prepend)

text \<open>The routine on a container \<open>Element t a cs\<close>: the two ways it ends.\<close>

lemma modify_js_cases:
  "(downgradeSectionHeaders (Element t a cs) = Inr db \<longrightarrow>
      modify_js m l c dep s vw (Element t a cs) =
        Inr (Element t a (presentation_js m l c dep s vw @ childNodes db))) \<and>
   (downgradeSectionHeaders (Element t a cs) = Inl (e, db) \<longrightarrow>
      modify_js m l c dep s vw (Element t a cs) = Inl (e, db))"
proof (intro conjI impI)
  assume r: "downgradeSectionHeaders (Element t a cs) = Inr db"
  with downgradeSectionHeaders_keeps_root[of t a cs db] obtain cs' where "db = Element t a cs'"
    by blast
  with r show "modify_js m l c dep s vw (Element t a cs) =
      Inr (Element t a (presentation_js m l c dep s vw @ childNodes db))"
    by (simp add: modify_js_eq)
next
  assume "downgradeSectionHeaders (Element t a cs) = Inl (e, db)"
  then show "modify_js m l c dep s vw (Element t a cs) = Inl (e, db)"
    by (simp add: modify_js_eq)
qed

lemma modify_md_cases:
  "(downgradeSectionHeaders (Element t a cs) = Inr db \<longrightarrow>
      modify_md r h l c s vw (Element t a cs) =
        Inr (Element t a (presentation_md r h l c s vw @ childNodes db))) \<and>
   (downgradeSectionHeaders (Element t a cs) = Inl (e, db) \<longrightarrow>
      modify_md r h l c s vw (Element t a cs) = Inl (e, db))"
proof (intro conjI impI)
  assume r: "downgradeSectionHeaders (Element t a cs) = Inr db"
  with downgradeSectionHeaders_keeps_root[of t a cs db] obtain cs' where "db = Element t a cs'"
    by blast
  with r show "modify_md r h l c s vw (Element t a cs) =
      Inr (Element t a (presentation_md r h l c s vw @ childNodes db))"
    by (simp add: modify_md_eq)
next
  assume "downgradeSectionHeaders (Element t a cs) = Inl (e, db)"
  then show "modify_md r h l c s vw (Element t a cs) = Inl (e, db)"
    by (simp add: modify_md_eq)
qed

text \<open>Container resolution never throws in \<open>createElement\<close> or \<open>setAttribute\<close>: its names are
  fixed. It throws when the anchor is the root element.\<close>

lemma findOrCreateDocblock_eq:
  "findOrCreateDocblock root =
     (case querySelector ''.docblock'' root of
        Some p \<Rightarrow> Inr (root, Some p)
      | None \<Rightarrow>
          (case querySelector ''.fqn'' root of
             None \<Rightarrow> Inr (root, None)
           | Some fqn \<Rightarrow>
               if fqn = [] then Inl (HierarchyRequestError, root)
               else Inr (update_at (butlast fqn)
                           (\<lambda>n. insert_child (Suc (last fqn)) toggle_wrapper_html
                                  (insert_child (Suc (last fqn))
                                     (Element ''DIV'' [(''class'', ''docblock'')] []) n))
                           root,
                         Some (butlast fqn @ [last fqn + 2]))))"
  by (simp add: findOrCreateDocblock_def createElement_simps xml_name_literals toLowerChar_def
      createToggleWrapper_eq insertAdjacentElement_afterend_def update_at_update_at
      split: option.split)

lemma findOrCreateDocblock_found:
  assumes "findOrCreateDocblock root = Inr (root', Some p)"
  shows "\<exists>t a cs. node_at root' p = Some (Element t a cs)"
proof (cases "querySelector ''.docblock'' root")
  case (Some p0)
  with assms have "root' = root" "p = p0" by (simp_all add: findOrCreateDocblock_eq)
  with querySelector_valid[OF Some] show ?thesis by blast
next
  case None
  with assms obtain fqn where fqn: "querySelector ''.fqn'' root = Some fqn"
    by (cases "querySelector ''.fqn'' root") (auto simp: findOrCreateDocblock_eq)
  from assms None fqn have ne: "fqn \<noteq> []"
    by (auto simp: findOrCreateDocblock_eq split: if_splits)
  let ?par = "butlast fqn" and ?i = "last fqn"
  let ?docblock = "Element ''DIV'' [(''class'', ''docblock'')] []"
  from ne have split: "fqn = ?par @ [?i]" by simp
  from querySelector_valid[OF fqn] obtain n where "node_at root fqn = Some n" by blast
  with split have "node_at root (?par @ [?i]) = Some n" by simp
  from node_at_snoc[OF this] obtain t a cs where
    par: "node_at root ?par = Some (Element t a cs)" and i: "?i < length cs" by blast
  from assms None fqn ne have root': "root' = update_at ?par
      (\<lambda>n. insert_child (Suc ?i) toggle_wrapper_html (insert_child (Suc ?i) ?docblock n)) root"
    and p: "p = ?par @ [?i + 2]"
    by (auto simp: findOrCreateDocblock_eq)
  have "node_at root' (?par @ [?i + 2]) = Some ?docblock"
    unfolding root' node_at_update_at_below[OF par] using i
    by (simp add: nth_append)
  then show ?thesis unfolding p by blast
qed

lemma within_at:
  "node_at root p = Some n \<Longrightarrow>
   within p routine root =
     (case routine n of
        Inl (e, n') \<Rightarrow> Inl (e, update_at p (\<lambda>x. n') root)
      | Inr n' \<Rightarrow> Inr (update_at p (\<lambda>x. n') root))"
  by (simp add: within_def)

lemma run_registerModification:
  assumes "endsWith (pathname pg) ''/index.html''" and "listeners pg = []"
  shows "document (DOMContentLoaded (registerModification m l c dep s vw pg)) =
           invoke (document pg) (Listener_js m l c dep s vw)"
  using assms by (simp add: registerModification_def DOMContentLoaded_def)

lemma run_registerModification_ts:
  assumes "endsWith (pathname pg) ''/index.html''" and "listeners pg = []"
  shows "document (DOMContentLoaded (registerModification_ts r h l c s vw pg)) =
           invoke (document pg) (Listener_ts r h l c s vw)"
  using assms by (simp add: registerModification_ts_def DOMContentLoaded_def)

text \<open>The plain script on a page whose container is found or created.\<close>

lemma registerModification_container:
  assumes "endsWith (pathname pg) ''/index.html''" and "listeners pg = []"
      and "findOrCreateDocblock (document pg) = Inr (root', Some p)"
  shows "\<exists>t a cs. node_at root' p = Some (Element t a cs) \<and>
           (\<forall>db. downgradeSectionHeaders (Element t a cs) = Inr db \<longrightarrow>
              document (DOMContentLoaded (registerModification m l c dep s vw pg)) =
                update_at p
                  (\<lambda>n. Element t a (presentation_js m l c dep s vw @ childNodes db)) root') \<and>
           (\<forall>e db. downgradeSectionHeaders (Element t a cs) = Inl (e, db) \<longrightarrow>
              document (DOMContentLoaded (registerModification m l c dep s vw pg)) =
                update_at p (\<lambda>n. db) root')"
proof -
  from findOrCreateDocblock_found[OF assms(3)] obtain t a cs where
    at: "node_at root' p = Some (Element t a cs)" by blast
  have run: "document (DOMContentLoaded (registerModification m l c dep s vw pg)) =
      (case modify_js m l c dep s vw (Element t a cs) of
         Inl (e, n') \<Rightarrow> update_at p (\<lambda>x. n') root'
       | Inr n' \<Rightarrow> update_at p (\<lambda>x. n') root')"
    by (simp add: run_registerModification[OF assms(1,2)] invoke_def assms(3) within_at[OF at]
        split: sum.split prod.split)
  show ?thesis
  proof (intro exI conjI allI impI)
    show "node_at root' p = Some (Element t a cs)" by (rule at)
  next
    fix db assume "downgradeSectionHeaders (Element t a cs) = Inr db"
    with modify_js_cases[of t a cs db m l c dep s vw] run
    show "document (DOMContentLoaded (registerModification m l c dep s vw pg)) =
        update_at p (\<lambda>n. Element t a (presentation_js m l c dep s vw @ childNodes db)) root'"
      by simp
  next
    fix e db assume "downgradeSectionHeaders (Element t a cs) = Inl (e, db)"
    with modify_js_cases[of t a cs db m l c dep s vw e] run
    show "document (DOMContentLoaded (registerModification m l c dep s vw pg)) =
        update_at p (\<lambda>n. db) root'"
      by simp
  qed
qed

text \<open>\<open>modifyDocblock\<close> on a page with a container.\<close>

lemma modifyDocblock_container:
  assumes "querySelector ''.docblock'' (document pg) = Some q"
  shows "\<exists>t a cs. node_at (document pg) q = Some (Element t a cs) \<and>
           (\<forall>db. downgradeSectionHeaders (Element t a cs) = Inr db \<longrightarrow>
              modifyDocblock r h l c s vw pg =
                Inr (pg\<lparr>document := update_at q
                       (\<lambda>n. Element t a (presentation_md r h l c s vw @ childNodes db))
                       (document pg)\<rparr>)) \<and>
           (\<forall>e db. downgradeSectionHeaders (Element t a cs) = Inl (e, db) \<longrightarrow>
              modifyDocblock r h l c s vw pg =
                Inl (e, pg\<lparr>document := update_at q (\<lambda>n. db) (document pg)\<rparr>))"
proof -
  from querySelector_valid[OF assms] obtain t a cs where
    at: "node_at (document pg) q = Some (Element t a cs)" by blast
  have run: "modifyDocblock r h l c s vw pg =
      (case modify_md r h l c s vw (Element t a cs) of
         Inl (e, n') \<Rightarrow> Inl (e, pg\<lparr>document := update_at q (\<lambda>x. n') (document pg)\<rparr>)
       | Inr n' \<Rightarrow> Inr (pg\<lparr>document := update_at q (\<lambda>x. n') (document pg)\<rparr>))"
    by (simp add: modifyDocblock_def assms within_at[OF at] split: sum.split prod.split)
  show ?thesis
  proof (intro exI conjI allI impI)
    show "node_at (document pg) q = Some (Element t a cs)" by (rule at)
  next
    fix db assume "downgradeSectionHeaders (Element t a cs) = Inr db"
    with modify_md_cases[of t a cs db r h l c s vw] run
    show "modifyDocblock r h l c s vw pg =
        Inr (pg\<lparr>document := update_at q
               (\<lambda>n. Element t a (presentation_md r h l c s vw @ childNodes db))
               (document pg)\<rparr>)"
      by simp
  next
    fix e db assume "downgradeSectionHeaders (Element t a cs) = Inl (e, db)"
    with modify_md_cases[of t a cs db r h l c s vw e] run
    show "modifyDocblock r h l c s vw pg =
        Inl (e, pg\<lparr>document := update_at q (\<lambda>n. db) (document pg)\<rparr>)"
      by simp
  qed
qed

lemma registerModification_at:
  assumes "endsWith (pathname pg) ''/index.html''" and "listeners pg = []"
      and "findOrCreateDocblock (document pg) = Inr (root', Some p)"
      and "node_at root' p = Some (Element t a cs)"
  shows "(\<forall>db. downgradeSectionHeaders (Element t a cs) = Inr db \<longrightarrow>
            document (DOMContentLoaded (registerModification m l c dep s vw pg)) =
              update_at p
                (\<lambda>n. Element t a (presentation_js m l c dep s vw @ childNodes db)) root') \<and>
         (\<forall>e db. downgradeSectionHeaders (Element t a cs) = Inl (e, db) \<longrightarrow>
            document (DOMContentLoaded (registerModification m l c dep s vw pg)) =
              update_at p (\<lambda>n. db) root')"
  using registerModification_container[OF assms(1,2,3), of m l c dep s vw] assms(4)
  by auto

lemma modifyDocblock_at:
  assumes "querySelector ''.docblock'' (document pg) = Some q"
      and "node_at (document pg) q = Some (Element t a cs)"
  shows "(\<forall>db. downgradeSectionHeaders (Element t a cs) = Inr db \<longrightarrow>
            modifyDocblock r h l c s vw pg =
              Inr (pg\<lparr>document := update_at q
                     (\<lambda>n. Element t a (presentation_md r h l c s vw @ childNodes db))
                     (document pg)\<rparr>)) \<and>
         (\<forall>e db. downgradeSectionHeaders (Element t a cs) = Inl (e, db) \<longrightarrow>
            modifyDocblock r h l c s vw pg =
              Inl (e, pg\<lparr>document := update_at q (\<lambda>n. db) (document pg)\<rparr>))"
  using modifyDocblock_container[OF assms(1), of r h l c s vw] assms(2)
  by auto

subsection \<open>The fragments that carry the marker class\<close>

lemma matches_no_attributes: "attributes n = [] \<Longrightarrow> \<not> matches sel n"
  by (cases n) (auto simp: classList_def split: list.splits)

lemma matches_header_html: "matches ''.section-header'' (header_html name ident)"
  by (simp add: header_html_def classList_def is_ascii_whitespace_def)

lemma attributes_fragments:
  "attributes (first_html m l) = []"
  "attributes (first_ts_html r h l) = []"
  "attributes (command_html c) = []"
  "attributes (dependencies_html dep) = []"
  "attributes (code_size_html sz) = []"
  "attributes (code_size_ts_html sz') = []"
  "attributes (verified_html vw) = []"
  "attributes (verified_list_html vw) = []"
  by (simp_all add: first_html_def first_ts_html_def command_html_def dependencies_html_def
      code_size_html_def code_size_ts_html_def verified_html_def verified_list_html_def)

lemma headers_presentation_js:
  "filter (matches ''.section-header'') (presentation_js m l c dep s vw) =
     [header_html ''Dependencies'' ''dependencies'']
     @ (case s of None \<Rightarrow> [] | Some sz \<Rightarrow> [header_html ''Code size'' ''code-size''])
     @ [header_html ''Verified with'' ''verified-with'',
        header_html ''Description'' ''description'']"
  by (simp add: presentation_js_def matches_header_html matches_no_attributes
      attributes_fragments split: option.split)

lemma headers_presentation_md:
  "filter (matches ''.section-header'') (presentation_md r h l c s vw) =
     (case s of None \<Rightarrow> [] | Some sz \<Rightarrow> [header_html ''Code size'' ''code-size''])
     @ [header_html ''Verified with'' ''verified-with'',
        header_html ''Description'' ''description'']"
  by (simp add: presentation_md_def matches_header_html matches_no_attributes
      attributes_fragments split: option.split)

subsection \<open>No code-size fragment without a code size\<close>

lemma dependencies_not_code_size: "dependencies_html dep \<noteq> code_size_html sz"
proof (cases dep)
  case Nil
  then show ?thesis by (simp add: dependencies_html_def code_size_html_def)
next
  case (Cons x xs)
  obtain t h where "x = (t, h)" by (cases x)
  with Cons show ?thesis by (simp add: dependencies_html_def code_size_html_def)
qed

lemma verified_list_not_code_size: "verified_list_html vw \<noteq> code_size_ts_html sz"
proof (cases vw)
  case Nil
  then show ?thesis by (simp add: verified_list_html_def code_size_ts_html_def)
next
  case (Cons x xs)
  obtain u b where "x = (u, b)" by (cases x)
  with Cons show ?thesis by (simp add: verified_list_html_def code_size_ts_html_def)
qed

lemma no_code_size_in_presentation_js:
  "\<forall>n \<in> set (presentation_js m l c dep None vw).
     n \<noteq> header_html ''Code size'' ''code-size'' \<and> (\<forall>sz. n \<noteq> code_size_html sz)"
proof -
  have "dependencies_html dep \<noteq> header_html ''Code size'' ''code-size''"
    by (simp add: dependencies_html_def header_html_def)
  then show ?thesis
    using dependencies_not_code_size[of dep]
    by (simp add: presentation_js_def)
       (simp add: first_html_def command_html_def header_html_def code_size_html_def
          placeholders_html_def verified_html_def)
qed

lemma no_code_size_in_presentation_md:
  "\<forall>n \<in> set (presentation_md r h l c None vw).
     n \<noteq> header_html ''Code size'' ''code-size'' \<and> (\<forall>sz. n \<noteq> code_size_ts_html sz)"
  using verified_list_not_code_size[of vw]
  by (simp add: presentation_md_def)
     (simp add: first_ts_html_def command_html_def header_html_def code_size_ts_html_def
        verified_list_html_def)

subsection \<open>The example pages\<close>

lemma example_docblock_facts:
  "downgradeSectionHeaders example_docblock = Inr example_docblock_downgraded"
  "downgradeSectionHeaders (Element ''DIV'' [(''class'', ''docblock'')] []) =
     Inr (Element ''DIV'' [(''class'', ''docblock'')] [])"
  "downgradeSectionHeaders example_refused_name =
     Inl (InvalidCharacterError, example_refused_name_left)"
  by code_simp+

lemma example_page_facts:
  "endsWith (pathname example_page) ''/index.html''"
  "listeners example_page = []"
  "findOrCreateDocblock (document example_page) = Inr (example_document, Some [0, 1])"
  "querySelector ''.docblock'' (document example_page) = Some [0, 1]"
  "node_at example_document [0, 1] = Some example_docblock"
  "document example_page = example_document"
  by code_simp+

lemma example_page_anchor_only_facts:
  "endsWith (pathname example_page_anchor_only) ''/index.html''"
  "listeners example_page_anchor_only = []"
  "findOrCreateDocblock (document example_page_anchor_only) =
     Inr (example_document_created, Some [0, 2])"
  "node_at example_document_created [0, 2] = Some (Element ''DIV'' [(''class'', ''docblock'')] [])"
  by code_simp+

lemma example_page_bare_facts:
  "querySelector ''.docblock'' (document example_page_bare) = None"
  "querySelector ''.fqn'' (document example_page_bare) = None"
  "listeners example_page_bare = []"
  by code_simp+

lemma example_page_struct_facts:
  "\<not> endsWith (pathname example_page_struct) ''/index.html''"
  "listeners example_page_struct = []"
  "document example_page_struct = example_document"
  "querySelector ''.docblock'' (document example_page_struct) = Some [0, 1]"
  by code_simp+

lemma example_page_refused_name_facts:
  "endsWith (pathname example_page_refused_name) ''/index.html''"
  "listeners example_page_refused_name = []"
  "findOrCreateDocblock (document example_page_refused_name) =
     Inr (example_document_refused_name, Some [0, 0])"
  "querySelector ''.docblock'' (document example_page_refused_name) = Some [0, 0]"
  "node_at example_document_refused_name [0, 0] = Some example_refused_name"
  "document example_page_refused_name = example_document_refused_name"
  by code_simp+


section \<open>The fragments\<close>

text \<open>
  Claim C2. The verification-status block is returned without an exception and is a \<open>DIV\<close>
  that holds the status line and then a list. For an empty list of pairs the status line is
  a \<open>STRONG\<close> element with the warning mark and the text "This library is not verified.";
  otherwise it is the check mark and the text "This library verified with 1 solution." for
  one pair and "This library verified with N solutions.", \<open>N\<close> the decimal numeral of the
  number of pairs, for two or more. In every case the \<open>UL\<close> that follows has one item per
  pair, in the order of the input: a link to the problem URL showing that URL, " (", a link
  to the solution showing "code", and ")". That \<open>string_of_nat\<close> prints the number is lemma
  \<open>decimal_value_string_of_nat\<close>.
\<close>

theorem createVerifiedWithSection_status_and_list:
  "createVerifiedWithSection verifiedWith =
     Inr (Element ''DIV'' []
       ((if verifiedWith = [] then
           [Element ''STRONG'' []
              [Element ''IMG''
                 [(''src'', ''https://github.githubassets.com/images/icons/emoji/unicode/26a0.png''),
                  (''alt'', warning_char), (''title'', warning_char),
                  (''width'', ''20''), (''height'', ''20'')] [],
               Text '' This library is not verified.'']]
         else
           [Element ''IMG''
              [(''src'', ''https://github.githubassets.com/images/icons/emoji/unicode/2714.png''),
               (''alt'', heavy_check_mark_char), (''title'', heavy_check_mark_char),
               (''width'', ''20''), (''height'', ''20'')] [],
            Text (if length verifiedWith = 1 then '' This library verified with 1 solution.''
                  else '' This library verified with '' @ string_of_nat (length verifiedWith)
                       @ '' solutions.'')])
        @ [Element ''UL'' []
             (map (\<lambda>(problemURL, blobURL).
                Element ''LI'' []
                  [Element ''A'' [(''href'', problemURL)] [Text problemURL], Text '' ('',
                   Element ''A'' [(''href'', blobURL)] [Text ''code''], Text '')''])
              verifiedWith)]))"
  by (simp add: createVerifiedWithSection_eq verified_html_def verified_list_html_def
      mark_html_def)

theorem createVerifiedWithSection_status_and_list_witness:
  "createVerifiedWithSection example_verifiedWith =
     Inr (Element ''DIV'' []
       [Element ''IMG''
          [(''src'', ''https://github.githubassets.com/images/icons/emoji/unicode/2714.png''),
           (''alt'', heavy_check_mark_char), (''title'', heavy_check_mark_char),
           (''width'', ''20''), (''height'', ''20'')] [],
        Text '' This library verified with 2 solutions.'',
        Element ''UL'' []
          [Element ''LI'' []
             [Element ''A'' [(''href'', ''https://judge.example/problems/1'')]
                [Text ''https://judge.example/problems/1''], Text '' ('',
              Element ''A'' [(''href'', ''https://github.com/u/r/blob/main/a.rs'')] [Text ''code''],
              Text '')''],
           Element ''LI'' []
             [Element ''A'' [(''href'', ''https://judge.example/problems/2'')]
                [Text ''https://judge.example/problems/2''], Text '' ('',
              Element ''A'' [(''href'', ''https://github.com/u/r/blob/main/b.rs'')] [Text ''code''],
              Text '')'']]])"
  using createVerifiedWithSection_status_and_list [of example_verifiedWith]
  by (simp add: example_verifiedWith_def string_of_nat.simps)

text \<open>
  Claim C4. For a number of bytes \<open>b\<close> (a non-negative integer that a JavaScript number
  holds exactly), the code-size block is returned and its first item shows \<open>floor(b/1024)\<close>,
  a dot, \<open>floor(10 * (b mod 1024) / 1024)\<close> and " KiB"; 1536, 1024, 0 and 1000 bytes show as
  "1.5 KiB", "1.0 KiB", "0.0 KiB" and "0.9 KiB". A string is shown inside a \<open>CODE\<close>
  element instead.
\<close>

theorem createCodeSizeSection_unmodified:
  assumes "0 \<le> b" and "b \<le> 9007199254740991"
  shows "(\<exists>ul. createCodeSizeSection (SizeNumber b) = Inr ul \<and>
            hd (childNodes ul) =
              Element ''LI'' []
                [Text ''unmodified: '',
                 Text (string_of_nat (nat (b div 1024)) @ ''.''
                       @ string_of_nat (nat (10 * (b mod 1024) div 1024)) @ '' KiB''),
                 Text '' + (not yet implemented) KiB'']) \<and>
         (\<exists>ul. createCodeSizeSection (SizeNumber 1536) = Inr ul \<and>
            hd (childNodes ul) =
              Element ''LI'' []
                [Text ''unmodified: '', Text ''1.5 KiB'',
                 Text '' + (not yet implemented) KiB'']) \<and>
         (\<exists>ul. createCodeSizeSection (SizeNumber 1024) = Inr ul \<and>
            hd (childNodes ul) =
              Element ''LI'' []
                [Text ''unmodified: '', Text ''1.0 KiB'',
                 Text '' + (not yet implemented) KiB'']) \<and>
         (\<exists>ul. createCodeSizeSection (SizeNumber 0) = Inr ul \<and>
            hd (childNodes ul) =
              Element ''LI'' []
                [Text ''unmodified: '', Text ''0.0 KiB'',
                 Text '' + (not yet implemented) KiB'']) \<and>
         (\<exists>ul. createCodeSizeSection (SizeNumber 1000) = Inr ul \<and>
            hd (childNodes ul) =
              Element ''LI'' []
                [Text ''unmodified: '', Text ''0.9 KiB'',
                 Text '' + (not yet implemented) KiB'']) \<and>
         (\<exists>ul. createCodeSizeSection (SizeString s) = Inr ul \<and>
            hd (childNodes ul) =
              Element ''LI'' []
                [Text ''unmodified: '', Element ''CODE'' [] [Text s],
                 Text '' + (not yet implemented) KiB''])"
proof -
  from assms(1) have d: "0 \<le> b div 1024" and r: "0 \<le> 10 * (b mod 1024) div 1024"
    by simp_all
  have general: "hd (childNodes (code_size_html (SizeNumber b))) =
           Element ''LI'' []
             [Text ''unmodified: '',
              Text (string_of_nat (nat (b div 1024)) @ ''.''
                    @ string_of_nat (nat (10 * (b mod 1024) div 1024)) @ '' KiB''),
              Text '' + (not yet implemented) KiB'']"
    using assms(1) d r
    by (simp add: code_size_html_def js_rem_def string_of_int_nonneg)
  have e1: "hd (childNodes (code_size_html (SizeNumber 1536))) =
           Element ''LI'' []
             [Text ''unmodified: '', Text ''1.5 KiB'', Text '' + (not yet implemented) KiB'']"
    by (simp add: code_size_html_def js_rem_def string_of_int_def string_of_nat.simps)
  have e2: "hd (childNodes (code_size_html (SizeNumber 1024))) =
           Element ''LI'' []
             [Text ''unmodified: '', Text ''1.0 KiB'', Text '' + (not yet implemented) KiB'']"
    by (simp add: code_size_html_def js_rem_def string_of_int_def string_of_nat.simps)
  have e3: "hd (childNodes (code_size_html (SizeNumber 0))) =
           Element ''LI'' []
             [Text ''unmodified: '', Text ''0.0 KiB'', Text '' + (not yet implemented) KiB'']"
    by (simp add: code_size_html_def js_rem_def string_of_int_def string_of_nat.simps)
  have e4: "hd (childNodes (code_size_html (SizeNumber 1000))) =
           Element ''LI'' []
             [Text ''unmodified: '', Text ''0.9 KiB'', Text '' + (not yet implemented) KiB'']"
    by (simp add: code_size_html_def js_rem_def string_of_int_def string_of_nat.simps)
  have str: "hd (childNodes (code_size_html (SizeString s))) =
           Element ''LI'' []
             [Text ''unmodified: '', Element ''CODE'' [] [Text s],
              Text '' + (not yet implemented) KiB'']"
    by (simp add: code_size_html_def)
  from general e1 e2 e3 e4 str show ?thesis
    by (simp add: createCodeSizeSection_eq)
qed

theorem createCodeSizeSection_unmodified_witness:
  "(0::int) \<le> 2600 \<and> (2600::int) \<le> 9007199254740991 \<and>
   (\<exists>ul. createCodeSizeSection (SizeNumber 2600) = Inr ul \<and>
      hd (childNodes ul) =
        Element ''LI'' []
          [Text ''unmodified: '', Text ''2.5 KiB'', Text '' + (not yet implemented) KiB''])"
  using createCodeSizeSection_unmodified [of 2600]
  by (simp add: string_of_nat.simps)

text \<open>
  Claim C6, as stated, fails for the TypeScript variants: their code-size block has the
  "unmodified" item and nothing after it.
\<close>

theorem createCodeSizeSection_ts_no_placeholders:
  "createCodeSizeSection_ts ''1.5'' =
     Inr (Element ''UL'' []
            [Element ''LI'' [] [Text ''unmodified: 1.5 KiB + (not yet implemented) KiB'']])"
  by (simp add: createCodeSizeSection_ts_eq code_size_ts_html_def)

text \<open>
  Claim C6, amended. In the plain script the code-size block has three items for every
  size: after the "unmodified" item come the two fixed placeholder items, one for the size
  after resolving \<open>#[cfg]\<close> and formatting, one for the minified size. In the TypeScript
  variants the block consists of the "unmodified" item alone.
\<close>

theorem createCodeSizeSection_placeholders:
  "(\<exists>ul. createCodeSizeSection codeSizeUnmodified = Inr ul \<and>
      tl (childNodes ul) =
        [Element ''LI'' []
           [Element ''CODE'' [] [Text ''#[cfg]''],
            Text '' resolved + (doc-)comment removed + Rustfmt: (not yet implemented)''],
         Element ''LI'' []
           [Element ''CODE'' [] [Text ''#[cfg]''],
            Text '' resolved + doc-comment removed + minified: (not yet implemented)'']] \<and>
      length (childNodes ul) = 3) \<and>
   createCodeSizeSection_ts s =
     Inr (Element ''UL'' []
       [Element ''LI'' [] [Text (''unmodified: '' @ s @ '' KiB + (not yet implemented) KiB'')]])"
  by (simp add: createCodeSizeSection_eq createCodeSizeSection_ts_eq code_size_html_def
      code_size_ts_html_def placeholders_html_def)

text \<open>
  Claim C9. \<open>createDependenciesSection\<close> returns the string "No dependencies." for the
  empty list, which \<open>prepend\<close> inserts as text, and for a non-empty list a \<open>UL\<close> with one
  item per pair in the order of the input, each holding a link whose \<open>href\<close> is the pair's
  link and whose text is the pair's label. The install command is rendered, by
  \<open>createCargoAddCommandSection\<close> and by \<open>createDependencySection\<close> alike, as a \<open>PRE\<close> with a
  \<open>CODE\<close> of class \<open>language-console\<close> holding "$ ", the command and a line feed. None of
  the three throws.
\<close>

theorem dependency_rendering:
  "createDependenciesSection [] = Inr (Inl ''No dependencies.'') \<and>
   node_of_arg (Inl ''No dependencies.'') = Text ''No dependencies.'' \<and>
   (items \<noteq> [] \<longrightarrow>
      createDependenciesSection items =
        Inr (Inr (Element ''UL'' []
               (map (\<lambda>(text, href).
                  Element ''LI'' [] [Element ''A'' [(''href'', href)] [Text text]]) items)))) \<and>
   createCargoAddCommandSection cargoAddCommand =
     Inr (Element ''PRE'' []
       [Element ''CODE'' [(''class'', ''language-console'')]
          [Text (''$ '' @ cargoAddCommand @ [CHR 0x0A])]]) \<and>
   createDependencySection cargoAddCommand =
     Inr (Element ''PRE'' []
       [Element ''CODE'' [(''class'', ''language-console'')]
          [Text (''$ '' @ cargoAddCommand @ [CHR 0x0A])]])"
  by (simp add: createDependenciesSection_def createCargoAddCommandSection_eq
      createDependencySection_eq command_html_def createElement_simps
      for_each_dependencies_item)

theorem dependency_rendering_witness:
  "example_dependencies \<noteq> [] \<and>
   createDependenciesSection example_dependencies =
     Inr (Inr (Element ''UL'' []
            [Element ''LI'' []
               [Element ''A'' [(''href'', ''../modint/index.html'')] [Text ''modint'']]]))"
  using dependency_rendering [of example_dependencies]
  by (simp add: example_dependencies_def)


section \<open>Heading downgrade\<close>

text \<open>Nested section headers are all replaced, the inner ones after the outer ones.\<close>

lemma downgradeSectionHeaders_example_nested:
  "downgradeSectionHeaders example_nested =
     Inr (Element ''DIV'' [(''class'', ''docblock'')]
       [Element ''H2'' [(''class'', ''section-header'')]
          [Element ''H3'' [(''class'', ''section-header'')] [Text ''Inner'']]])"
  by code_simp





section \<open>The routines on a page\<close>

lemmas fragments_built =
  createFirstSection_eq createCargoAddCommandSection_eq createHeader_eq
  createDependenciesSection_eq createCodeSizeSection_eq createVerifiedWithSection_eq
  createFirstSection_ts_eq createDependencySection_eq createCodeSizeSection_ts_eq
  createVerifiedWithSection_md_eq

text \<open>A run that throws in the heading downgrade: the header "Zero" is replaced, the pass
  stops at the header with the refused attribute name, and nothing is prepended.\<close>

lemma registerModification_refused_name_example:
  "document (DOMContentLoaded (registerModification
       ''https://github.com/u/r/tree/main/segtree'' ''CC0-1.0'' ''cargo add segtree''
       example_dependencies (Some (SizeNumber 1536)) example_verifiedWith
       example_page_refused_name)) =
     Element ''HTML'' [] [Element ''BODY'' [] [example_refused_name_left]] \<and>
   modifyDocblock ''Cargo.toml'' ''https://github.com/u/r/blob/main/segtree/Cargo.toml''
       ''CC0-1.0'' ''cargo add segtree'' (Some ''1.5'') example_verifiedWith
       example_page_refused_name =
     Inl (InvalidCharacterError,
          example_page_refused_name
            \<lparr>document := Element ''HTML'' [] [Element ''BODY'' [] [example_refused_name_left]]\<rparr>)"
  by code_simp

text \<open>An anchor that is the root element has the document as its parent: the insertion throws
  and the page stays as it was.\<close>

lemma anchor_is_root_example:
  "handleEvent (Listener_ts ''Cargo.toml'' ''Cargo.toml'' ''CC0-1.0'' ''cargo add segtree'' None [])
     (Element ''HTML'' [(''class'', ''fqn'')] []) =
     Inl (HierarchyRequestError, Element ''HTML'' [(''class'', ''fqn'')] []) \<and>
   invoke (Element ''HTML'' [(''class'', ''fqn'')] [])
     (Listener_ts ''Cargo.toml'' ''Cargo.toml'' ''CC0-1.0'' ''cargo add segtree'' None []) =
     Element ''HTML'' [(''class'', ''fqn'')] []"
  by code_simp

text \<open>
  Claim C1, as stated, fails for the plain script: between the first block and the heading
  "Code size" the container holds three fragments, the install command, a heading
  "Dependencies" and the dependency list. On the example page the third child of the
  container is the heading "Dependencies", and the children are not the sequence of the
  claim, whichever of the two is taken for its "dependency block".
\<close>

theorem plain_script_has_dependencies_heading:
  "createHeader ''Dependencies'' ''dependencies'' =
     Inr (childNodes (the (node_at (document (DOMContentLoaded (registerModification
        ''https://github.com/u/r/tree/main/segtree'' ''CC0-1.0'' ''cargo add segtree''
        example_dependencies (Some (SizeNumber 1536)) example_verifiedWith example_page)))
        [0, 1])) ! 2) \<and>
   childNodes (the (node_at (document (DOMContentLoaded (registerModification
        ''https://github.com/u/r/tree/main/segtree'' ''CC0-1.0'' ''cargo add segtree''
        example_dependencies (Some (SizeNumber 1536)) example_verifiedWith example_page)))
        [0, 1])) \<noteq>
     [first_html ''https://github.com/u/r/tree/main/segtree'' ''CC0-1.0'',
      command_html ''cargo add segtree'',
      header_html ''Code size'' ''code-size'',
      code_size_html (SizeNumber 1536),
      header_html ''Verified with'' ''verified-with'',
      verified_html example_verifiedWith,
      header_html ''Description'' ''description'']
     @ childNodes example_docblock_downgraded \<and>
   childNodes (the (node_at (document (DOMContentLoaded (registerModification
        ''https://github.com/u/r/tree/main/segtree'' ''CC0-1.0'' ''cargo add segtree''
        example_dependencies (Some (SizeNumber 1536)) example_verifiedWith example_page)))
        [0, 1])) \<noteq>
     [first_html ''https://github.com/u/r/tree/main/segtree'' ''CC0-1.0'',
      dependencies_html example_dependencies,
      header_html ''Code size'' ''code-size'',
      code_size_html (SizeNumber 1536),
      header_html ''Verified with'' ''verified-with'',
      verified_html example_verifiedWith,
      header_html ''Description'' ''description'']
     @ childNodes example_docblock_downgraded"
  by code_simp

text \<open>
  Claim C1, amended. The run downgrades the headings of the container first. When that pass
  completes, the children of the container after the run are, top to bottom: the first
  block; the dependency fragments (in the plain script the install command, the heading
  "Dependencies" and the dependency list; in \<open>modifyDocblock\<close> the install command alone);
  the heading "Code size" and the code-size block, only with a code size; the heading
  "Verified with", the verification block, the heading "Description"; then the children that
  the downgrade pass left, and nothing else of the document changes. When the pass throws,
  nothing is prepended: the container is as the pass left it. The routine produces this
  order by prepending the fragments one by one in the reverse of it. Each fragment is what
  its builder returns.
\<close>

theorem prepended_order:
  "(endsWith (pathname pg) ''/index.html'' \<and> listeners pg = [] \<and>
    findOrCreateDocblock (document pg) = Inr (root', Some p) \<longrightarrow>
      (\<exists>t a cs.
         node_at root' p = Some (Element t a cs) \<and>
         (\<forall>db. downgradeSectionHeaders (Element t a cs) = Inr db \<longrightarrow>
            document (DOMContentLoaded (registerModification m l c dep s vw pg)) =
              update_at p
                (\<lambda>n. Element t a
                   ([first_html m l,
                     command_html c,
                     header_html ''Dependencies'' ''dependencies'',
                     dependencies_html dep]
                    @ (case s of
                         None \<Rightarrow> []
                       | Some sz \<Rightarrow> [header_html ''Code size'' ''code-size'', code_size_html sz])
                    @ [header_html ''Verified with'' ''verified-with'',
                       verified_html vw,
                       header_html ''Description'' ''description'']
                    @ childNodes db))
                root') \<and>
         (\<forall>e db. downgradeSectionHeaders (Element t a cs) = Inl (e, db) \<longrightarrow>
            document (DOMContentLoaded (registerModification m l c dep s vw pg)) =
              update_at p (\<lambda>n. db) root'))) \<and>
   (querySelector ''.docblock'' (document pg) = Some q \<longrightarrow>
      (\<exists>t a cs.
         node_at (document pg) q = Some (Element t a cs) \<and>
         (\<forall>db. downgradeSectionHeaders (Element t a cs) = Inr db \<longrightarrow>
            modifyDocblock r h l' c' s' vw' pg =
              Inr (pg\<lparr>document := update_at q
                     (\<lambda>n. Element t a
                        ([first_ts_html r h l',
                          command_html c']
                         @ (case s' of
                              None \<Rightarrow> []
                            | Some sz \<Rightarrow>
                                [header_html ''Code size'' ''code-size'', code_size_ts_html sz])
                         @ [header_html ''Verified with'' ''verified-with'',
                            verified_list_html vw',
                            header_html ''Description'' ''description'']
                         @ childNodes db))
                     (document pg)\<rparr>)) \<and>
         (\<forall>e db. downgradeSectionHeaders (Element t a cs) = Inl (e, db) \<longrightarrow>
            modifyDocblock r h l' c' s' vw' pg =
              Inl (e, pg\<lparr>document := update_at q (\<lambda>n. db) (document pg)\<rparr>)))) \<and>
   modify_js m l c dep s vw docblock =
     and_then (downgradeSectionHeaders docblock)
       (\<lambda>db. Inr (foldl (\<lambda>db n. prepend [n] db) db
          (rev ([first_html m l,
                 command_html c,
                 header_html ''Dependencies'' ''dependencies'',
                 dependencies_html dep]
                @ (case s of
                     None \<Rightarrow> []
                   | Some sz \<Rightarrow> [header_html ''Code size'' ''code-size'', code_size_html sz])
                @ [header_html ''Verified with'' ''verified-with'',
                   verified_html vw,
                   header_html ''Description'' ''description''])))) \<and>
   modify_md r h l' c' s' vw' docblock =
     and_then (downgradeSectionHeaders docblock)
       (\<lambda>db. Inr (foldl (\<lambda>db n. prepend [n] db) db
          (rev ([first_ts_html r h l',
                 command_html c']
                @ (case s' of
                     None \<Rightarrow> []
                   | Some sz \<Rightarrow> [header_html ''Code size'' ''code-size'', code_size_ts_html sz])
                @ [header_html ''Verified with'' ''verified-with'',
                   verified_list_html vw',
                   header_html ''Description'' ''description''])))) \<and>
   createFirstSection m l = Inr (first_html m l) \<and>
   createCargoAddCommandSection c = Inr (command_html c) \<and>
   createHeader name ident = Inr (header_html name ident) \<and>
   and_then (createDependenciesSection dep) (\<lambda>arg. Inr (node_of_arg arg)) =
     Inr (dependencies_html dep) \<and>
   createCodeSizeSection sz1 = Inr (code_size_html sz1) \<and>
   createVerifiedWithSection vw = Inr (verified_html vw) \<and>
   createFirstSection_ts r h l' = Inr (first_ts_html r h l') \<and>
   createDependencySection c' = Inr (command_html c') \<and>
   createCodeSizeSection_ts sz2 = Inr (code_size_ts_html sz2) \<and>
   createVerifiedWithSection_md vw' = Inr (verified_list_html vw')"
proof -
  have js: "endsWith (pathname pg) ''/index.html'' \<and> listeners pg = [] \<and>
    findOrCreateDocblock (document pg) = Inr (root', Some p) \<longrightarrow>
      (\<exists>t a cs.
         node_at root' p = Some (Element t a cs) \<and>
         (\<forall>db. downgradeSectionHeaders (Element t a cs) = Inr db \<longrightarrow>
            document (DOMContentLoaded (registerModification m l c dep s vw pg)) =
              update_at p
                (\<lambda>n. Element t a (presentation_js m l c dep s vw @ childNodes db)) root') \<and>
         (\<forall>e db. downgradeSectionHeaders (Element t a cs) = Inl (e, db) \<longrightarrow>
            document (DOMContentLoaded (registerModification m l c dep s vw pg)) =
              update_at p (\<lambda>n. db) root'))"
    using registerModification_container[of pg root' p m l c dep s vw] by blast
  have md: "querySelector ''.docblock'' (document pg) = Some q \<longrightarrow>
      (\<exists>t a cs.
         node_at (document pg) q = Some (Element t a cs) \<and>
         (\<forall>db. downgradeSectionHeaders (Element t a cs) = Inr db \<longrightarrow>
            modifyDocblock r h l' c' s' vw' pg =
              Inr (pg\<lparr>document := update_at q
                     (\<lambda>n. Element t a (presentation_md r h l' c' s' vw' @ childNodes db))
                     (document pg)\<rparr>)) \<and>
         (\<forall>e db. downgradeSectionHeaders (Element t a cs) = Inl (e, db) \<longrightarrow>
            modifyDocblock r h l' c' s' vw' pg =
              Inl (e, pg\<lparr>document := update_at q (\<lambda>n. db) (document pg)\<rparr>)))"
    using modifyDocblock_container[of pg q r h l' c' s' vw'] by blast
  show ?thesis
    using js md modify_js_reverse[of m l c dep s vw docblock]
      modify_md_reverse[of r h l' c' s' vw' docblock]
    unfolding presentation_js_def presentation_md_def
    by (simp only: fragments_built append_assoc simp_thms)
qed

theorem prepended_order_witness:
  "endsWith (pathname example_page) ''/index.html'' \<and> listeners example_page = [] \<and>
   findOrCreateDocblock (document example_page) = Inr (example_document, Some [0, 1]) \<and>
   querySelector ''.docblock'' (document example_page) = Some [0, 1] \<and>
   node_at example_document [0, 1] = Some example_docblock \<and>
   downgradeSectionHeaders example_docblock = Inr example_docblock_downgraded \<and>
   node_at (document (DOMContentLoaded (registerModification
       ''https://github.com/u/r/tree/main/segtree'' ''CC0-1.0'' ''cargo add segtree''
       example_dependencies (Some (SizeNumber 1536)) example_verifiedWith example_page)))
     [0, 1] =
     Some (Element ''DIV'' [(''class'', ''docblock'')]
       ([first_html ''https://github.com/u/r/tree/main/segtree'' ''CC0-1.0'',
         command_html ''cargo add segtree'',
         header_html ''Dependencies'' ''dependencies'',
         dependencies_html example_dependencies,
         header_html ''Code size'' ''code-size'',
         code_size_html (SizeNumber 1536),
         header_html ''Verified with'' ''verified-with'',
         verified_html example_verifiedWith,
         header_html ''Description'' ''description'']
        @ childNodes example_docblock_downgraded)) \<and>
   modifyDocblock ''Cargo.toml'' ''https://github.com/u/r/blob/main/segtree/Cargo.toml''
       ''CC0-1.0'' ''cargo add segtree'' (Some ''1.5'') example_verifiedWith example_page =
     Inr (example_page\<lparr>document := update_at [0, 1]
       (\<lambda>n. Element ''DIV'' [(''class'', ''docblock'')]
          ([first_ts_html ''Cargo.toml''
              ''https://github.com/u/r/blob/main/segtree/Cargo.toml'' ''CC0-1.0'',
            command_html ''cargo add segtree'',
            header_html ''Code size'' ''code-size'',
            code_size_ts_html ''1.5'',
            header_html ''Verified with'' ''verified-with'',
            verified_list_html example_verifiedWith,
            header_html ''Description'' ''description'']
           @ childNodes example_docblock_downgraded))
       example_document\<rparr>) \<and>
   endsWith (pathname example_page_anchor_only) ''/index.html'' \<and>
   listeners example_page_anchor_only = [] \<and>
   findOrCreateDocblock (document example_page_anchor_only) =
     Inr (example_document_created, Some [0, 2]) \<and>
   document (DOMContentLoaded (registerModification
       ''https://github.com/u/r/tree/main/segtree'' ''CC0-1.0'' ''cargo add segtree''
       example_dependencies None example_verifiedWith example_page_anchor_only)) =
     update_at [0, 2]
       (\<lambda>n. Element ''DIV'' [(''class'', ''docblock'')]
          [first_html ''https://github.com/u/r/tree/main/segtree'' ''CC0-1.0'',
           command_html ''cargo add segtree'',
           header_html ''Dependencies'' ''dependencies'',
           dependencies_html example_dependencies,
           header_html ''Verified with'' ''verified-with'',
           verified_html example_verifiedWith,
           header_html ''Description'' ''description''])
       example_document_created \<and>
   endsWith (pathname example_page_refused_name) ''/index.html'' \<and>
   listeners example_page_refused_name = [] \<and>
   findOrCreateDocblock (document example_page_refused_name) =
     Inr (example_document_refused_name, Some [0, 0]) \<and>
   downgradeSectionHeaders example_refused_name =
     Inl (InvalidCharacterError, example_refused_name_left) \<and>
   document (DOMContentLoaded (registerModification
       ''https://github.com/u/r/tree/main/segtree'' ''CC0-1.0'' ''cargo add segtree''
       example_dependencies (Some (SizeNumber 1536)) example_verifiedWith
       example_page_refused_name)) =
     update_at [0, 0] (\<lambda>n. example_refused_name_left) example_document_refused_name"
proof -
  note inst = prepended_order [where pg = example_page and root' = example_document
      and p = "[0, 1]" and q = "[0, 1]"
      and m = "''https://github.com/u/r/tree/main/segtree''" and l = "''CC0-1.0''"
      and c = "''cargo add segtree''" and dep = example_dependencies
      and s = "Some (SizeNumber 1536)" and vw = example_verifiedWith
      and r = "''Cargo.toml''" and h = "''https://github.com/u/r/blob/main/segtree/Cargo.toml''"
      and l' = "''CC0-1.0''" and c' = "''cargo add segtree''" and s' = "Some ''1.5''"
      and vw' = example_verifiedWith]
  note created = prepended_order [where pg = example_page_anchor_only
      and root' = example_document_created and p = "[0, 2]"
      and m = "''https://github.com/u/r/tree/main/segtree''" and l = "''CC0-1.0''"
      and c = "''cargo add segtree''" and dep = example_dependencies
      and s = None and vw = example_verifiedWith]
  note refused = prepended_order [where pg = example_page_refused_name
      and root' = example_document_refused_name and p = "[0, 0]"
      and m = "''https://github.com/u/r/tree/main/segtree''" and l = "''CC0-1.0''"
      and c = "''cargo add segtree''" and dep = example_dependencies
      and s = "Some (SizeNumber 1536)" and vw = example_verifiedWith]
  have down: "downgradeSectionHeaders
       (Element ''DIV'' [(''class'', ''docblock'')]
          [Element ''P'' [] [Text ''A segment tree.''],
           Element ''H1'' [(''id'', ''example''), (''class'', ''section-header'')]
             [Element ''A'' [(''href'', ''#example'')] [Text ''Example'']],
           Element ''H6'' [(''id'', ''note''), (''class'', ''small section-header'')]
             [Text ''Note'']]) = Inr example_docblock_downgraded"
    using example_docblock_facts(1) by (simp add: example_docblock_def)
  have down': "downgradeSectionHeaders
       (Element ''DIV'' [(''class'', ''docblock'')]
          [Element ''H1'' [(''class'', ''section-header'')] [Text ''Zero''],
           Element ''H1'' [(''class'', ''section-header''), (''=x'', ''y'')] [Text ''First''],
           Element ''H2'' [(''class'', ''section-header'')] [Text ''Second'']]) =
       Inl (InvalidCharacterError, example_refused_name_left)"
    using example_docblock_facts(3) by (simp add: example_refused_name_def)
  from inst example_page_facts down
  have run: "document (DOMContentLoaded (registerModification
       ''https://github.com/u/r/tree/main/segtree'' ''CC0-1.0'' ''cargo add segtree''
       example_dependencies (Some (SizeNumber 1536)) example_verifiedWith example_page)) =
     update_at [0, 1]
       (\<lambda>n. Element ''DIV'' [(''class'', ''docblock'')]
          ([first_html ''https://github.com/u/r/tree/main/segtree'' ''CC0-1.0'',
            command_html ''cargo add segtree'',
            header_html ''Dependencies'' ''dependencies'',
            dependencies_html example_dependencies,
            header_html ''Code size'' ''code-size'',
            code_size_html (SizeNumber 1536),
            header_html ''Verified with'' ''verified-with'',
            verified_html example_verifiedWith,
            header_html ''Description'' ''description'']
           @ childNodes example_docblock_downgraded))
       example_document"
    by (auto simp: example_docblock_def)
  from inst example_page_facts down
  have md: "modifyDocblock ''Cargo.toml''
       ''https://github.com/u/r/blob/main/segtree/Cargo.toml''
       ''CC0-1.0'' ''cargo add segtree'' (Some ''1.5'') example_verifiedWith example_page =
     Inr (example_page\<lparr>document := update_at [0, 1]
       (\<lambda>n. Element ''DIV'' [(''class'', ''docblock'')]
          ([first_ts_html ''Cargo.toml''
              ''https://github.com/u/r/blob/main/segtree/Cargo.toml'' ''CC0-1.0'',
            command_html ''cargo add segtree'',
            header_html ''Code size'' ''code-size'',
            code_size_ts_html ''1.5'',
            header_html ''Verified with'' ''verified-with'',
            verified_list_html example_verifiedWith,
            header_html ''Description'' ''description'']
           @ childNodes example_docblock_downgraded))
       example_document\<rparr>)"
    by (auto simp: example_docblock_def)
  from created example_page_anchor_only_facts example_docblock_facts(2)
  have made: "document (DOMContentLoaded (registerModification
       ''https://github.com/u/r/tree/main/segtree'' ''CC0-1.0'' ''cargo add segtree''
       example_dependencies None example_verifiedWith example_page_anchor_only)) =
     update_at [0, 2]
       (\<lambda>n. Element ''DIV'' [(''class'', ''docblock'')]
          [first_html ''https://github.com/u/r/tree/main/segtree'' ''CC0-1.0'',
           command_html ''cargo add segtree'',
           header_html ''Dependencies'' ''dependencies'',
           dependencies_html example_dependencies,
           header_html ''Verified with'' ''verified-with'',
           verified_html example_verifiedWith,
           header_html ''Description'' ''description''])
       example_document_created"
    by auto
  from refused example_page_refused_name_facts down'
  have thrown: "document (DOMContentLoaded (registerModification
       ''https://github.com/u/r/tree/main/segtree'' ''CC0-1.0'' ''cargo add segtree''
       example_dependencies (Some (SizeNumber 1536)) example_verifiedWith
       example_page_refused_name)) =
     update_at [0, 0] (\<lambda>n. example_refused_name_left) example_document_refused_name"
    by (auto simp: example_refused_name_def)
  from run example_page_facts(5)
  have at: "node_at (document (DOMContentLoaded (registerModification
       ''https://github.com/u/r/tree/main/segtree'' ''CC0-1.0'' ''cargo add segtree''
       example_dependencies (Some (SizeNumber 1536)) example_verifiedWith example_page)))
     [0, 1] =
     Some (Element ''DIV'' [(''class'', ''docblock'')]
       ([first_html ''https://github.com/u/r/tree/main/segtree'' ''CC0-1.0'',
         command_html ''cargo add segtree'',
         header_html ''Dependencies'' ''dependencies'',
         dependencies_html example_dependencies,
         header_html ''Code size'' ''code-size'',
         code_size_html (SizeNumber 1536),
         header_html ''Verified with'' ''verified-with'',
         verified_html example_verifiedWith,
         header_html ''Description'' ''description'']
        @ childNodes example_docblock_downgraded))"
    by (simp only: node_at_update_at_same)
  from at md made thrown example_page_facts example_page_anchor_only_facts
    example_page_refused_name_facts example_docblock_facts
  show ?thesis by (intro conjI)
qed

text \<open>
  Claim C5. On a page with no element of class \<open>docblock\<close> and no element of class \<open>fqn\<close>, the
  callback of either \<open>registerModification\<close> returns the document as it is, so the document
  after the event equals the document before the call; \<open>modifyDocblock\<close>, which never
  looks for the anchor, returns the page as it is when there is no container.
\<close>

theorem no_container_no_anchor:
  assumes "querySelector ''.docblock'' (document pg) = None"
      and "querySelector ''.fqn'' (document pg) = None"
      and "listeners pg = []"
  shows "handleEvent (Listener_js m l c dep s vw) (document pg) = Inr (document pg) \<and>
         handleEvent (Listener_ts r h l' c' s' vw') (document pg) = Inr (document pg) \<and>
         document (registerModification m l c dep s vw pg) = document pg \<and>
         document (DOMContentLoaded (registerModification m l c dep s vw pg)) = document pg \<and>
         document (registerModification_ts r h l' c' s' vw' pg) = document pg \<and>
         document (DOMContentLoaded (registerModification_ts r h l' c' s' vw' pg)) = document pg \<and>
         modifyDocblock r h l' c' s' vw' pg = Inr pg"
  using assms
  by (simp add: findOrCreateDocblock_def registerModification_def registerModification_ts_def
      DOMContentLoaded_def invoke_def modifyDocblock_def)

theorem no_container_no_anchor_witness:
  "querySelector ''.docblock'' (document example_page_bare) = None \<and>
   querySelector ''.fqn'' (document example_page_bare) = None \<and>
   listeners example_page_bare = [] \<and>
   document (DOMContentLoaded (registerModification
       ''https://github.com/u/r/tree/main/segtree'' ''CC0-1.0'' ''cargo add segtree''
       example_dependencies (Some (SizeNumber 1536)) example_verifiedWith example_page_bare))
     = example_document_bare \<and>
   document (DOMContentLoaded (registerModification_ts ''Cargo.toml''
       ''https://github.com/u/r/blob/main/segtree/Cargo.toml'' ''CC0-1.0'' ''cargo add segtree''
       (Some ''1.5'') example_verifiedWith example_page_bare))
     = example_document_bare \<and>
   modifyDocblock ''Cargo.toml''
       ''https://github.com/u/r/blob/main/segtree/Cargo.toml'' ''CC0-1.0'' ''cargo add segtree''
       (Some ''1.5'') example_verifiedWith example_page_bare
     = Inr example_page_bare"
  using example_page_bare_facts
    no_container_no_anchor [OF example_page_bare_facts,
      of "''https://github.com/u/r/tree/main/segtree''" "''CC0-1.0''" "''cargo add segtree''"
        example_dependencies "Some (SizeNumber 1536)" example_verifiedWith
        "''Cargo.toml''" "''https://github.com/u/r/blob/main/segtree/Cargo.toml''"
        "''CC0-1.0''" "''cargo add segtree''" "Some ''1.5''" example_verifiedWith]
  by (simp add: example_page_bare_def)

text \<open>
  Claim C7, as stated, fails for \<open>modifyDocblock\<close>, which has no path check: called on a
  page whose path ends in "/struct.Segtree.html", it returns and has changed the document.
\<close>

theorem modifyDocblock_without_path_check:
  "\<not> endsWith (pathname example_page_struct) ''/index.html'' \<and>
   \<not> isl (modifyDocblock ''Cargo.toml'' ''https://github.com/u/r/blob/main/Cargo.toml''
     ''CC0-1.0'' ''cargo add segtree'' None [] example_page_struct) \<and>
   document (projr (modifyDocblock ''Cargo.toml'' ''https://github.com/u/r/blob/main/Cargo.toml''
     ''CC0-1.0'' ''cargo add segtree'' None [] example_page_struct))
   \<noteq> document example_page_struct"
  by code_simp

text \<open>
  Claim C7, amended. In the two variants with \<open>registerModification\<close>, a call on a page
  whose path does not end in "/index.html" returns the page as it is, no listener
  registered, so the document stays unchanged when the event fires. \<open>modifyDocblock\<close> does not
  read the path: it returns or throws the same, with the same document, under every path;
  and on a page with a container whose heading downgrade completes it returns a page with
  another document, whatever the path.
\<close>

theorem registerModification_path_gate:
  "(\<not> endsWith (pathname pg) ''/index.html'' \<longrightarrow>
      registerModification m l c dep s vw pg = pg \<and>
      registerModification_ts r h l' c' s' vw' pg = pg \<and>
      document (DOMContentLoaded (registerModification m l c dep s vw pg)) =
        document (DOMContentLoaded pg) \<and>
      document (DOMContentLoaded (registerModification_ts r h l' c' s' vw' pg)) =
        document (DOMContentLoaded pg)) \<and>
   modifyDocblock r h l' c' s' vw' (pg\<lparr>pathname := path'\<rparr>) =
     map_sum (map_prod id (\<lambda>pg'. pg'\<lparr>pathname := path'\<rparr>)) (\<lambda>pg'. pg'\<lparr>pathname := path'\<rparr>)
       (modifyDocblock r h l' c' s' vw' pg) \<and>
   (querySelector ''.docblock'' (document pg) = Some q \<and>
    node_at (document pg) q = Some docblock \<and>
    downgradeSectionHeaders docblock = Inr db \<longrightarrow>
      (\<exists>pg'. modifyDocblock r h l' c' s' vw' pg = Inr pg' \<and>
             document pg' \<noteq> document pg \<and> pathname pg' = pathname pg))"
proof (intro conjI impI)
  assume "\<not> endsWith (pathname pg) ''/index.html''"
  then show "registerModification m l c dep s vw pg = pg"
    "registerModification_ts r h l' c' s' vw' pg = pg"
    "document (DOMContentLoaded (registerModification m l c dep s vw pg)) =
       document (DOMContentLoaded pg)"
    "document (DOMContentLoaded (registerModification_ts r h l' c' s' vw' pg)) =
       document (DOMContentLoaded pg)"
    by (simp_all add: registerModification_def registerModification_ts_def)
next
  show "modifyDocblock r h l' c' s' vw' (pg\<lparr>pathname := path'\<rparr>) =
     map_sum (map_prod id (\<lambda>pg'. pg'\<lparr>pathname := path'\<rparr>)) (\<lambda>pg'. pg'\<lparr>pathname := path'\<rparr>)
       (modifyDocblock r h l' c' s' vw' pg)"
    by (simp add: modifyDocblock_def split: option.split sum.split prod.split)
next
  assume hyp: "querySelector ''.docblock'' (document pg) = Some q \<and>
    node_at (document pg) q = Some docblock \<and>
    downgradeSectionHeaders docblock = Inr db"
  then have q: "querySelector ''.docblock'' (document pg) = Some q"
    and at: "node_at (document pg) q = Some docblock"
    and down: "downgradeSectionHeaders docblock = Inr db" by simp_all
  from querySelector_valid[OF q] at obtain t a cs where el: "docblock = Element t a cs"
    by auto
  let ?new = "Element t a (presentation_md r h l' c' s' vw' @ childNodes db)"
  let ?pg' = "pg\<lparr>document := update_at q (\<lambda>n. ?new) (document pg)\<rparr>"
  from modifyDocblock_at[OF q at[unfolded el], of r h l' c' s' vw'] down el
  have ret: "modifyDocblock r h l' c' s' vw' pg = Inr ?pg'" by simp
  from downgradeSectionHeaders_keeps_root[of t a cs db] down el
  have len: "length (childNodes db) = length cs" by auto
  have "presentation_md r h l' c' s' vw' \<noteq> []" by (simp add: presentation_md_def)
  then have "length (presentation_md r h l' c' s' vw' @ childNodes db) \<noteq> length cs"
    using len by (cases "presentation_md r h l' c' s' vw'") simp_all
  then have "?new \<noteq> Element t a cs" by auto
  moreover have "node_at (document ?pg') q = Some ?new"
    using node_at_update_at_same[OF at, of "\<lambda>n. ?new"] by simp
  ultimately have "document ?pg' \<noteq> document pg" using at el by auto
  with ret show "\<exists>pg'. modifyDocblock r h l' c' s' vw' pg = Inr pg' \<and>
             document pg' \<noteq> document pg \<and> pathname pg' = pathname pg"
    by simp
qed

theorem registerModification_path_gate_witness:
  "\<not> endsWith (pathname example_page_struct) ''/index.html'' \<and>
   querySelector ''.docblock'' (document example_page_struct) = Some [0, 1] \<and>
   node_at (document example_page_struct) [0, 1] = Some example_docblock \<and>
   downgradeSectionHeaders example_docblock = Inr example_docblock_downgraded \<and>
   document (DOMContentLoaded (registerModification
       ''https://github.com/u/r/tree/main/segtree'' ''CC0-1.0'' ''cargo add segtree''
       example_dependencies (Some (SizeNumber 1536)) example_verifiedWith example_page_struct))
     = example_document \<and>
   document (DOMContentLoaded (registerModification_ts ''Cargo.toml''
       ''https://github.com/u/r/blob/main/segtree/Cargo.toml'' ''CC0-1.0'' ''cargo add segtree''
       (Some ''1.5'') example_verifiedWith example_page_struct))
     = example_document \<and>
   (\<exists>pg'. modifyDocblock ''Cargo.toml''
       ''https://github.com/u/r/blob/main/segtree/Cargo.toml'' ''CC0-1.0'' ''cargo add segtree''
       (Some ''1.5'') example_verifiedWith example_page_struct = Inr pg' \<and>
     document pg' \<noteq> example_document \<and>
     pathname pg' = ''/segtree/struct.Segtree.html'')"
proof -
  have at: "node_at (document example_page_struct) [0, 1] = Some example_docblock"
    using example_page_facts(5) by (simp add: example_page_struct_facts(3))
  note inst = registerModification_path_gate [where pg = example_page_struct
      and q = "[0, 1]" and docblock = example_docblock and db = example_docblock_downgraded
      and m = "''https://github.com/u/r/tree/main/segtree''" and l = "''CC0-1.0''"
      and c = "''cargo add segtree''" and dep = example_dependencies
      and s = "Some (SizeNumber 1536)" and vw = example_verifiedWith
      and r = "''Cargo.toml''" and h = "''https://github.com/u/r/blob/main/segtree/Cargo.toml''"
      and l' = "''CC0-1.0''" and c' = "''cargo add segtree''" and s' = "Some ''1.5''"
      and vw' = example_verifiedWith]
  have path: "pathname example_page_struct = ''/segtree/struct.Segtree.html''"
    by (simp add: example_page_struct_def)
  from inst example_page_struct_facts at example_docblock_facts(1) path
  show ?thesis by (simp add: DOMContentLoaded_def)
qed

text \<open>
  Claim C8. When the heading downgrade completes, the children of the container after a
  run with a null code size are the first block, the dependency fragments, the heading
  "Verified with", the verification block and the heading "Description", followed by the
  children that the pass left: none of the fragments is the heading "Code size" or a
  code-size block. With a size, the same children appear in the same order around the
  heading "Code size" and the code-size block. When the pass throws, the document is the
  same with and without a code size. This holds for the plain script and for
  \<open>modifyDocblock\<close>.
\<close>

theorem code_size_absent:
  "(endsWith (pathname pg) ''/index.html'' \<and> listeners pg = [] \<and>
    findOrCreateDocblock (document pg) = Inr (root', Some p) \<longrightarrow>
      (\<exists>t a cs.
         node_at root' p = Some (Element t a cs) \<and>
         (\<forall>db. downgradeSectionHeaders (Element t a cs) = Inr db \<longrightarrow>
            document (DOMContentLoaded (registerModification m l c dep None vw pg)) =
              update_at p
                (\<lambda>n. Element t a
                   ([first_html m l,
                     command_html c,
                     header_html ''Dependencies'' ''dependencies'',
                     dependencies_html dep,
                     header_html ''Verified with'' ''verified-with'',
                     verified_html vw,
                     header_html ''Description'' ''description'']
                    @ childNodes db))
                root' \<and>
            (\<forall>sz.
               document (DOMContentLoaded (registerModification m l c dep (Some sz) vw pg)) =
                 update_at p
                   (\<lambda>n. Element t a
                      ([first_html m l,
                        command_html c,
                        header_html ''Dependencies'' ''dependencies'',
                        dependencies_html dep,
                        header_html ''Code size'' ''code-size'',
                        code_size_html sz,
                        header_html ''Verified with'' ''verified-with'',
                        verified_html vw,
                        header_html ''Description'' ''description'']
                       @ childNodes db))
                   root')) \<and>
         (\<forall>e db. downgradeSectionHeaders (Element t a cs) = Inl (e, db) \<longrightarrow>
            (\<forall>s. document (DOMContentLoaded (registerModification m l c dep s vw pg)) =
                   update_at p (\<lambda>n. db) root')))) \<and>
   (querySelector ''.docblock'' (document pg) = Some q \<longrightarrow>
      (\<exists>t a cs.
         node_at (document pg) q = Some (Element t a cs) \<and>
         (\<forall>db. downgradeSectionHeaders (Element t a cs) = Inr db \<longrightarrow>
            modifyDocblock r h l' c' None vw' pg =
              Inr (pg\<lparr>document := update_at q
                     (\<lambda>n. Element t a
                        ([first_ts_html r h l',
                          command_html c',
                          header_html ''Verified with'' ''verified-with'',
                          verified_list_html vw',
                          header_html ''Description'' ''description'']
                         @ childNodes db))
                     (document pg)\<rparr>) \<and>
            (\<forall>sz.
               modifyDocblock r h l' c' (Some sz) vw' pg =
                 Inr (pg\<lparr>document := update_at q
                        (\<lambda>n. Element t a
                           ([first_ts_html r h l',
                             command_html c',
                             header_html ''Code size'' ''code-size'',
                             code_size_ts_html sz,
                             header_html ''Verified with'' ''verified-with'',
                             verified_list_html vw',
                             header_html ''Description'' ''description'']
                            @ childNodes db))
                        (document pg)\<rparr>))) \<and>
         (\<forall>e db. downgradeSectionHeaders (Element t a cs) = Inl (e, db) \<longrightarrow>
            (\<forall>s'. modifyDocblock r h l' c' s' vw' pg =
                    Inl (e, pg\<lparr>document := update_at q (\<lambda>n. db) (document pg)\<rparr>))))) \<and>
   (\<forall>n \<in> set [first_html m l,
               command_html c,
               header_html ''Dependencies'' ''dependencies'',
               dependencies_html dep,
               header_html ''Verified with'' ''verified-with'',
               verified_html vw,
               header_html ''Description'' ''description''].
      n \<noteq> header_html ''Code size'' ''code-size'' \<and> (\<forall>sz. n \<noteq> code_size_html sz)) \<and>
   (\<forall>n \<in> set [first_ts_html r h l',
               command_html c',
               header_html ''Verified with'' ''verified-with'',
               verified_list_html vw',
               header_html ''Description'' ''description''].
      n \<noteq> header_html ''Code size'' ''code-size'' \<and> (\<forall>sz. n \<noteq> code_size_ts_html sz)) \<and>
   createHeader ''Code size'' ''code-size'' = Inr (header_html ''Code size'' ''code-size'') \<and>
   createCodeSizeSection sz1 = Inr (code_size_html sz1) \<and>
   createCodeSizeSection_ts sz2 = Inr (code_size_ts_html sz2)"
proof (intro conjI impI)
  assume hyp: "endsWith (pathname pg) ''/index.html'' \<and> listeners pg = [] \<and>
    findOrCreateDocblock (document pg) = Inr (root', Some p)"
  then have h1: "endsWith (pathname pg) ''/index.html''" and h2: "listeners pg = []"
    and h3: "findOrCreateDocblock (document pg) = Inr (root', Some p)" by simp_all
  from findOrCreateDocblock_found[OF h3] obtain t a cs where
    at: "node_at root' p = Some (Element t a cs)" by blast
  note run = registerModification_at[OF h1 h2 h3 at, of m l c dep _ vw]
  show "\<exists>t a cs.
         node_at root' p = Some (Element t a cs) \<and>
         (\<forall>db. downgradeSectionHeaders (Element t a cs) = Inr db \<longrightarrow>
            document (DOMContentLoaded (registerModification m l c dep None vw pg)) =
              update_at p
                (\<lambda>n. Element t a
                   ([first_html m l,
                     command_html c,
                     header_html ''Dependencies'' ''dependencies'',
                     dependencies_html dep,
                     header_html ''Verified with'' ''verified-with'',
                     verified_html vw,
                     header_html ''Description'' ''description'']
                    @ childNodes db))
                root' \<and>
            (\<forall>sz.
               document (DOMContentLoaded (registerModification m l c dep (Some sz) vw pg)) =
                 update_at p
                   (\<lambda>n. Element t a
                      ([first_html m l,
                        command_html c,
                        header_html ''Dependencies'' ''dependencies'',
                        dependencies_html dep,
                        header_html ''Code size'' ''code-size'',
                        code_size_html sz,
                        header_html ''Verified with'' ''verified-with'',
                        verified_html vw,
                        header_html ''Description'' ''description'']
                       @ childNodes db))
                   root')) \<and>
         (\<forall>e db. downgradeSectionHeaders (Element t a cs) = Inl (e, db) \<longrightarrow>
            (\<forall>s. document (DOMContentLoaded (registerModification m l c dep s vw pg)) =
                   update_at p (\<lambda>n. db) root'))"
    using at run[of None] run[of "Some sz" for sz] run
    by (intro exI[of _ t] exI[of _ a] exI[of _ cs]) (simp add: presentation_js_def)
next
  assume h: "querySelector ''.docblock'' (document pg) = Some q"
  from querySelector_valid[OF h] obtain t a cs where
    at: "node_at (document pg) q = Some (Element t a cs)" by blast
  note run = modifyDocblock_at[OF h at, of r h l' c' _ vw']
  show "\<exists>t a cs.
         node_at (document pg) q = Some (Element t a cs) \<and>
         (\<forall>db. downgradeSectionHeaders (Element t a cs) = Inr db \<longrightarrow>
            modifyDocblock r h l' c' None vw' pg =
              Inr (pg\<lparr>document := update_at q
                     (\<lambda>n. Element t a
                        ([first_ts_html r h l',
                          command_html c',
                          header_html ''Verified with'' ''verified-with'',
                          verified_list_html vw',
                          header_html ''Description'' ''description'']
                         @ childNodes db))
                     (document pg)\<rparr>) \<and>
            (\<forall>sz.
               modifyDocblock r h l' c' (Some sz) vw' pg =
                 Inr (pg\<lparr>document := update_at q
                        (\<lambda>n. Element t a
                           ([first_ts_html r h l',
                             command_html c',
                             header_html ''Code size'' ''code-size'',
                             code_size_ts_html sz,
                             header_html ''Verified with'' ''verified-with'',
                             verified_list_html vw',
                             header_html ''Description'' ''description'']
                            @ childNodes db))
                        (document pg)\<rparr>))) \<and>
         (\<forall>e db. downgradeSectionHeaders (Element t a cs) = Inl (e, db) \<longrightarrow>
            (\<forall>s'. modifyDocblock r h l' c' s' vw' pg =
                    Inl (e, pg\<lparr>document := update_at q (\<lambda>n. db) (document pg)\<rparr>)))"
    using at run[of None] run[of "Some sz" for sz] run
    by (intro exI[of _ t] exI[of _ a] exI[of _ cs]) (simp add: presentation_md_def)
next
  show "\<forall>n \<in> set [first_html m l,
               command_html c,
               header_html ''Dependencies'' ''dependencies'',
               dependencies_html dep,
               header_html ''Verified with'' ''verified-with'',
               verified_html vw,
               header_html ''Description'' ''description''].
      n \<noteq> header_html ''Code size'' ''code-size'' \<and> (\<forall>sz. n \<noteq> code_size_html sz)"
    using no_code_size_in_presentation_js[of m l c dep vw]
    by (simp only: presentation_js_def option.case append_Nil append_Cons)
next
  show "\<forall>n \<in> set [first_ts_html r h l',
               command_html c',
               header_html ''Verified with'' ''verified-with'',
               verified_list_html vw',
               header_html ''Description'' ''description''].
      n \<noteq> header_html ''Code size'' ''code-size'' \<and> (\<forall>sz. n \<noteq> code_size_ts_html sz)"
    using no_code_size_in_presentation_md[of r h l' c' vw']
    by (simp only: presentation_md_def option.case append_Nil append_Cons)
qed (rule fragments_built)+

theorem code_size_absent_witness:
  "endsWith (pathname example_page) ''/index.html'' \<and> listeners example_page = [] \<and>
   findOrCreateDocblock (document example_page) = Inr (example_document, Some [0, 1]) \<and>
   querySelector ''.docblock'' (document example_page) = Some [0, 1] \<and>
   node_at example_document [0, 1] = Some example_docblock \<and>
   downgradeSectionHeaders example_docblock = Inr example_docblock_downgraded \<and>
   document (DOMContentLoaded (registerModification
       ''https://github.com/u/r/tree/main/segtree'' ''CC0-1.0'' ''cargo add segtree''
       example_dependencies None example_verifiedWith example_page)) =
     update_at [0, 1]
       (\<lambda>n. Element ''DIV'' [(''class'', ''docblock'')]
          ([first_html ''https://github.com/u/r/tree/main/segtree'' ''CC0-1.0'',
            command_html ''cargo add segtree'',
            header_html ''Dependencies'' ''dependencies'',
            dependencies_html example_dependencies,
            header_html ''Verified with'' ''verified-with'',
            verified_html example_verifiedWith,
            header_html ''Description'' ''description'']
           @ childNodes example_docblock_downgraded))
       example_document \<and>
   modifyDocblock ''Cargo.toml''
       ''https://github.com/u/r/blob/main/segtree/Cargo.toml'' ''CC0-1.0'' ''cargo add segtree''
       None example_verifiedWith example_page =
     Inr (example_page\<lparr>document := update_at [0, 1]
       (\<lambda>n. Element ''DIV'' [(''class'', ''docblock'')]
          ([first_ts_html ''Cargo.toml''
              ''https://github.com/u/r/blob/main/segtree/Cargo.toml'' ''CC0-1.0'',
            command_html ''cargo add segtree'',
            header_html ''Verified with'' ''verified-with'',
            verified_list_html example_verifiedWith,
            header_html ''Description'' ''description'']
           @ childNodes example_docblock_downgraded))
       example_document\<rparr>) \<and>
   header_html ''Dependencies'' ''dependencies'' \<noteq> header_html ''Code size'' ''code-size'' \<and>
   dependencies_html example_dependencies \<noteq> code_size_html (SizeNumber 1536)"
proof -
  note inst = code_size_absent [where pg = example_page and root' = example_document
      and p = "[0, 1]" and q = "[0, 1]"
      and m = "''https://github.com/u/r/tree/main/segtree''" and l = "''CC0-1.0''"
      and c = "''cargo add segtree''" and dep = example_dependencies
      and vw = example_verifiedWith
      and r = "''Cargo.toml''" and h = "''https://github.com/u/r/blob/main/segtree/Cargo.toml''"
      and l' = "''CC0-1.0''" and c' = "''cargo add segtree''"
      and vw' = example_verifiedWith]
  have down: "downgradeSectionHeaders
       (Element ''DIV'' [(''class'', ''docblock'')]
          [Element ''P'' [] [Text ''A segment tree.''],
           Element ''H1'' [(''id'', ''example''), (''class'', ''section-header'')]
             [Element ''A'' [(''href'', ''#example'')] [Text ''Example'']],
           Element ''H6'' [(''id'', ''note''), (''class'', ''small section-header'')]
             [Text ''Note'']]) = Inr example_docblock_downgraded"
    using example_docblock_facts(1) by (simp add: example_docblock_def)
  from inst have none: "header_html ''Dependencies'' ''dependencies'' \<noteq>
      header_html ''Code size'' ''code-size'' \<and>
      dependencies_html example_dependencies \<noteq> code_size_html (SizeNumber 1536)"
    by simp
  from inst example_page_facts down
  have run: "document (DOMContentLoaded (registerModification
       ''https://github.com/u/r/tree/main/segtree'' ''CC0-1.0'' ''cargo add segtree''
       example_dependencies None example_verifiedWith example_page)) =
     update_at [0, 1]
       (\<lambda>n. Element ''DIV'' [(''class'', ''docblock'')]
          ([first_html ''https://github.com/u/r/tree/main/segtree'' ''CC0-1.0'',
            command_html ''cargo add segtree'',
            header_html ''Dependencies'' ''dependencies'',
            dependencies_html example_dependencies,
            header_html ''Verified with'' ''verified-with'',
            verified_html example_verifiedWith,
            header_html ''Description'' ''description'']
           @ childNodes example_docblock_downgraded))
       example_document"
    by (auto simp: example_docblock_def)
  from inst example_page_facts down
  have md: "modifyDocblock ''Cargo.toml''
       ''https://github.com/u/r/blob/main/segtree/Cargo.toml'' ''CC0-1.0'' ''cargo add segtree''
       None example_verifiedWith example_page =
     Inr (example_page\<lparr>document := update_at [0, 1]
       (\<lambda>n. Element ''DIV'' [(''class'', ''docblock'')]
          ([first_ts_html ''Cargo.toml''
              ''https://github.com/u/r/blob/main/segtree/Cargo.toml'' ''CC0-1.0'',
            command_html ''cargo add segtree'',
            header_html ''Verified with'' ''verified-with'',
            verified_list_html example_verifiedWith,
            header_html ''Description'' ''description'']
           @ childNodes example_docblock_downgraded))
       example_document\<rparr>)"
    by (auto simp: example_docblock_def)
  from run md none example_page_facts example_docblock_facts(1)
  show ?thesis by (intro conjI) simp_all
qed

text \<open>
  Claim C10. The routine downgrades the container first and prepends afterwards: once the
  container is found or created and the downgrade pass has completed, the children of the
  container after the run are the fragments of the routine followed by the children that
  the pass left; when the pass throws, no fragment is in the document. The fragments carrying
  the class \<open>section-header\<close>, the class the pass selects on, are exactly the headings that
  \<open>createHeader\<close> made, and each of them is an \<open>H1\<close>. This holds for the plain script and for
  \<open>modifyDocblock\<close>.
\<close>

theorem injected_headings_remain_h1:
  "(endsWith (pathname pg) ''/index.html'' \<and> listeners pg = [] \<and>
    findOrCreateDocblock (document pg) = Inr (root', Some p) \<longrightarrow>
      (\<exists>t a cs.
         node_at root' p = Some (Element t a cs) \<and>
         (\<forall>db. downgradeSectionHeaders (Element t a cs) = Inr db \<longrightarrow>
            document (DOMContentLoaded (registerModification m l c dep s vw pg)) =
              update_at p
                (\<lambda>n. Element t a (presentation_js m l c dep s vw @ childNodes db)) root') \<and>
         (\<forall>e db. downgradeSectionHeaders (Element t a cs) = Inl (e, db) \<longrightarrow>
            document (DOMContentLoaded (registerModification m l c dep s vw pg)) =
              update_at p (\<lambda>n. db) root'))) \<and>
   (querySelector ''.docblock'' (document pg) = Some q \<longrightarrow>
      (\<exists>t a cs.
         node_at (document pg) q = Some (Element t a cs) \<and>
         (\<forall>db. downgradeSectionHeaders (Element t a cs) = Inr db \<longrightarrow>
            modifyDocblock r h l' c' s' vw' pg =
              Inr (pg\<lparr>document := update_at q
                     (\<lambda>n. Element t a (presentation_md r h l' c' s' vw' @ childNodes db))
                     (document pg)\<rparr>)) \<and>
         (\<forall>e db. downgradeSectionHeaders (Element t a cs) = Inl (e, db) \<longrightarrow>
            modifyDocblock r h l' c' s' vw' pg =
              Inl (e, pg\<lparr>document := update_at q (\<lambda>n. db) (document pg)\<rparr>)))) \<and>
   filter (matches ''.section-header'') (presentation_js m l c dep s vw) =
     [header_html ''Dependencies'' ''dependencies'']
     @ (case s of None \<Rightarrow> [] | Some sz \<Rightarrow> [header_html ''Code size'' ''code-size''])
     @ [header_html ''Verified with'' ''verified-with'',
        header_html ''Description'' ''description''] \<and>
   filter (matches ''.section-header'') (presentation_md r h l' c' s' vw') =
     (case s' of None \<Rightarrow> [] | Some sz \<Rightarrow> [header_html ''Code size'' ''code-size''])
     @ [header_html ''Verified with'' ''verified-with'',
        header_html ''Description'' ''description''] \<and>
   createHeader name ident = Inr (header_html name ident) \<and>
   tagName (header_html name ident) = ''H1'' \<and>
   matches ''.section-header'' (header_html name ident)"
proof -
  have js: "endsWith (pathname pg) ''/index.html'' \<and> listeners pg = [] \<and>
    findOrCreateDocblock (document pg) = Inr (root', Some p) \<longrightarrow>
      (\<exists>t a cs.
         node_at root' p = Some (Element t a cs) \<and>
         (\<forall>db. downgradeSectionHeaders (Element t a cs) = Inr db \<longrightarrow>
            document (DOMContentLoaded (registerModification m l c dep s vw pg)) =
              update_at p
                (\<lambda>n. Element t a (presentation_js m l c dep s vw @ childNodes db)) root') \<and>
         (\<forall>e db. downgradeSectionHeaders (Element t a cs) = Inl (e, db) \<longrightarrow>
            document (DOMContentLoaded (registerModification m l c dep s vw pg)) =
              update_at p (\<lambda>n. db) root'))"
    using registerModification_container[of pg root' p m l c dep s vw] by blast
  have md: "querySelector ''.docblock'' (document pg) = Some q \<longrightarrow>
      (\<exists>t a cs.
         node_at (document pg) q = Some (Element t a cs) \<and>
         (\<forall>db. downgradeSectionHeaders (Element t a cs) = Inr db \<longrightarrow>
            modifyDocblock r h l' c' s' vw' pg =
              Inr (pg\<lparr>document := update_at q
                     (\<lambda>n. Element t a (presentation_md r h l' c' s' vw' @ childNodes db))
                     (document pg)\<rparr>)) \<and>
         (\<forall>e db. downgradeSectionHeaders (Element t a cs) = Inl (e, db) \<longrightarrow>
            modifyDocblock r h l' c' s' vw' pg =
              Inl (e, pg\<lparr>document := update_at q (\<lambda>n. db) (document pg)\<rparr>)))"
    using modifyDocblock_container[of pg q r h l' c' s' vw'] by blast
  have h1: "tagName (header_html name ident) = ''H1''" by (simp add: header_html_def)
  from js md headers_presentation_js[of m l c dep s vw]
    headers_presentation_md[of r h l' c' s' vw'] createHeader_eq[of name ident] h1
    matches_header_html[of name ident]
  show ?thesis by (intro conjI)
qed

theorem injected_headings_remain_h1_witness:
  "endsWith (pathname example_page) ''/index.html'' \<and> listeners example_page = [] \<and>
   findOrCreateDocblock (document example_page) = Inr (example_document, Some [0, 1]) \<and>
   querySelector ''.docblock'' (document example_page) = Some [0, 1] \<and>
   node_at example_document [0, 1] = Some example_docblock \<and>
   downgradeSectionHeaders example_docblock = Inr example_docblock_downgraded \<and>
   node_at (document (DOMContentLoaded (registerModification
       ''https://github.com/u/r/tree/main/segtree'' ''CC0-1.0'' ''cargo add segtree''
       example_dependencies (Some (SizeNumber 1536)) example_verifiedWith example_page)))
     [0, 1] =
     Some (Element ''DIV'' [(''class'', ''docblock'')]
       (presentation_js ''https://github.com/u/r/tree/main/segtree'' ''CC0-1.0''
          ''cargo add segtree'' example_dependencies (Some (SizeNumber 1536))
          example_verifiedWith
        @ childNodes example_docblock_downgraded)) \<and>
   map tagName
     (presentation_js ''https://github.com/u/r/tree/main/segtree'' ''CC0-1.0''
        ''cargo add segtree'' example_dependencies (Some (SizeNumber 1536))
        example_verifiedWith
      @ childNodes example_docblock_downgraded) =
     [''UL'', ''PRE'', ''H1'', ''UL'', ''H1'', ''UL'', ''H1'', ''DIV'', ''H1'', ''P'', ''H2'', ''H6''] \<and>
   modifyDocblock ''Cargo.toml''
       ''https://github.com/u/r/blob/main/segtree/Cargo.toml'' ''CC0-1.0'' ''cargo add segtree''
       (Some ''1.5'') example_verifiedWith example_page =
     Inr (example_page\<lparr>document := update_at [0, 1]
       (\<lambda>n. Element ''DIV'' [(''class'', ''docblock'')]
          (presentation_md ''Cargo.toml''
             ''https://github.com/u/r/blob/main/segtree/Cargo.toml'' ''CC0-1.0''
             ''cargo add segtree'' (Some ''1.5'') example_verifiedWith
           @ childNodes example_docblock_downgraded))
       example_document\<rparr>)"
proof -
  note inst = injected_headings_remain_h1 [where pg = example_page
      and root' = example_document and p = "[0, 1]" and q = "[0, 1]"
      and m = "''https://github.com/u/r/tree/main/segtree''" and l = "''CC0-1.0''"
      and c = "''cargo add segtree''" and dep = example_dependencies
      and s = "Some (SizeNumber 1536)" and vw = example_verifiedWith
      and r = "''Cargo.toml''" and h = "''https://github.com/u/r/blob/main/segtree/Cargo.toml''"
      and l' = "''CC0-1.0''" and c' = "''cargo add segtree''" and s' = "Some ''1.5''"
      and vw' = example_verifiedWith]
  have down: "downgradeSectionHeaders
       (Element ''DIV'' [(''class'', ''docblock'')]
          [Element ''P'' [] [Text ''A segment tree.''],
           Element ''H1'' [(''id'', ''example''), (''class'', ''section-header'')]
             [Element ''A'' [(''href'', ''#example'')] [Text ''Example'']],
           Element ''H6'' [(''id'', ''note''), (''class'', ''small section-header'')]
             [Text ''Note'']]) = Inr example_docblock_downgraded"
    using example_docblock_facts(1) by (simp add: example_docblock_def)
  from inst example_page_facts down
  have run: "document (DOMContentLoaded (registerModification
       ''https://github.com/u/r/tree/main/segtree'' ''CC0-1.0'' ''cargo add segtree''
       example_dependencies (Some (SizeNumber 1536)) example_verifiedWith example_page)) =
     update_at [0, 1]
       (\<lambda>n. Element ''DIV'' [(''class'', ''docblock'')]
          (presentation_js ''https://github.com/u/r/tree/main/segtree'' ''CC0-1.0''
             ''cargo add segtree'' example_dependencies (Some (SizeNumber 1536))
             example_verifiedWith
           @ childNodes example_docblock_downgraded))
       example_document"
    by (auto simp: example_docblock_def)
  from inst example_page_facts down
  have md: "modifyDocblock ''Cargo.toml''
       ''https://github.com/u/r/blob/main/segtree/Cargo.toml'' ''CC0-1.0'' ''cargo add segtree''
       (Some ''1.5'') example_verifiedWith example_page =
     Inr (example_page\<lparr>document := update_at [0, 1]
       (\<lambda>n. Element ''DIV'' [(''class'', ''docblock'')]
          (presentation_md ''Cargo.toml''
             ''https://github.com/u/r/blob/main/segtree/Cargo.toml'' ''CC0-1.0''
             ''cargo add segtree'' (Some ''1.5'') example_verifiedWith
           @ childNodes example_docblock_downgraded))
       example_document\<rparr>)"
    by (auto simp: example_docblock_def)
  from run example_page_facts(5)
  have at: "node_at (document (DOMContentLoaded (registerModification
       ''https://github.com/u/r/tree/main/segtree'' ''CC0-1.0'' ''cargo add segtree''
       example_dependencies (Some (SizeNumber 1536)) example_verifiedWith example_page)))
     [0, 1] =
     Some (Element ''DIV'' [(''class'', ''docblock'')]
       (presentation_js ''https://github.com/u/r/tree/main/segtree'' ''CC0-1.0''
          ''cargo add segtree'' example_dependencies (Some (SizeNumber 1536))
          example_verifiedWith
        @ childNodes example_docblock_downgraded))"
    by (simp only: node_at_update_at_same)
  have tags: "map tagName
     (presentation_js ''https://github.com/u/r/tree/main/segtree'' ''CC0-1.0''
        ''cargo add segtree'' example_dependencies (Some (SizeNumber 1536))
        example_verifiedWith
      @ childNodes example_docblock_downgraded) =
     [''UL'', ''PRE'', ''H1'', ''UL'', ''H1'', ''UL'', ''H1'', ''DIV'', ''H1'', ''P'', ''H2'', ''H6'']"
    by code_simp
  from at md tags example_page_facts example_docblock_facts(1)
  show ?thesis by (intro conjI)
qed


end
